theory Spec2Isabelle
  imports Main
begin

section \<open>JavaScript values\<close>

text \<open>
  A JavaScript string is a \<open>string\<close>, the list of its characters. The model compares
  strings, splits them at dots and searches them for a word. What JavaScript computes from
  the characters themselves (\<^verbatim>\<open>trim\<close>, \<^verbatim>\<open>toLowerCase\<close>, \<^verbatim>\<open>length\<close>) is part of the
  environment of the handlers, below. A value that may be \<^verbatim>\<open>undefined\<close> is a
  \<open>string option\<close>; \<open>truthy\<close> is JavaScript's truthiness on such a value (\<^verbatim>\<open>undefined\<close>
  and the empty string are falsy). \<open>js_str\<close> is the interpolation of a value into a
  template literal.
\<close>

definition truthy :: "string option \<Rightarrow> bool" where
  "truthy v = (case v of None \<Rightarrow> False | Some s \<Rightarrow> s \<noteq> [])"

definition js_str :: "string option \<Rightarrow> string" where
  "js_str v = (case v of None \<Rightarrow> ''undefined'' | Some s \<Rightarrow> s)"

text \<open>\<^verbatim>\<open>a || b\<close> on two optional strings.\<close>

definition or_else :: "string option \<Rightarrow> string option \<Rightarrow> string option" where
  "or_else a b = (if truthy a then a else b)"

text \<open>\<^verbatim>\<open>s.split(".")\<close>: the segments between the dots; one empty segment for the empty string.\<close>

fun split_acc :: "char \<Rightarrow> string \<Rightarrow> string \<Rightarrow> string list" where
  "split_acc c acc [] = [rev acc]"
| "split_acc c acc (x # xs) =
     (if x = c then rev acc # split_acc c [] xs else split_acc c (x # acc) xs)"

definition split_dot :: "string \<Rightarrow> string list" where
  "split_dot s = split_acc (CHR ''.'') [] s"

text \<open>\<^verbatim>\<open>s.includes(sub)\<close> on strings.\<close>

fun starts_with :: "string \<Rightarrow> string \<Rightarrow> bool" where
  "starts_with s [] = True"
| "starts_with [] (c # cs) = False"
| "starts_with (x # xs) (c # cs) = (x = c \<and> starts_with xs cs)"

fun str_includes :: "string \<Rightarrow> string \<Rightarrow> bool" where
  "str_includes [] sub = (sub = [])"
| "str_includes (x # xs) sub = (starts_with (x # xs) sub \<or> str_includes xs sub)"

section \<open>The user model (src/model/user.ts)\<close>

text \<open>
  A document of the \<^verbatim>\<open>users\<close> collection, with the fields of \<^verbatim>\<open>userSchema\<close> that the
  authentication controller reads or writes, the bookkeeping fields beside them, and the
  store-assigned \<^verbatim>\<open>_id\<close> (\<open>user_id\<close>). Dates are milliseconds. The fields the controller
  never touches (phone, dateOfBirth, gender, the verification and reset tokens, lockUntil,
  customerPreferences) are left out.
\<close>

record user =
  user_id :: nat
  name :: "string option"
  email :: "string option"
  password :: "string option"
  role :: "string option"
  firstName :: "string option"
  lastName :: "string option"
  avatar :: "string option"
  isEmailVerified :: bool
  googleId :: "string option"
  isGoogleUser :: bool
  provider :: "string option"
  isActive :: bool
  lastLogin :: "nat option"
  loginAttempts :: nat
  createdAt :: nat
  updatedAt :: nat

text \<open>The collection: its documents in insertion order, and the next fresh \<^verbatim>\<open>_id\<close>.\<close>

record store =
  docs :: "user list"
  next_id :: nat

text \<open>Errors a handler can see thrown, with the \<^verbatim>\<open>name\<close> property the catch blocks test.\<close>

datatype exn =
    ValidationError "string list"
  | MongoServerError string
  | DocumentNotFoundError
  | TypeError
  | InvalidRefreshTokenError
  | JsError string

fun exn_name :: "exn \<Rightarrow> string" where
  "exn_name (ValidationError ps) = ''ValidationError''"
| "exn_name (MongoServerError k) = ''MongoServerError''"
| "exn_name DocumentNotFoundError = ''DocumentNotFoundError''"
| "exn_name TypeError = ''TypeError''"
| "exn_name InvalidRefreshTokenError = ''InvalidRefreshTokenError''"
| "exn_name (JsError n) = n"

section \<open>Session tokens (src/plugin/token, src/plugin/config)\<close>

text \<open>The payload the controller signs: \<^verbatim>\<open>{ name, idUser, role }\<close>.\<close>

record claims =
  c_name :: "string option"
  idUser :: nat
  c_role :: "string option"

text \<open>
  Modelled from the spec: the tokens of the token plugin (src/plugin/token), which is not
  among the sources. The specification has each of them "a signed token encoding
  { subjectId, displayName, role } plus standard expiry claims". A token is symbolic: its
  payload, its issue and expiry times, and a signature that records the secret and the
  content it was computed over. Any other string a client may send is \<open>Garbage\<close>. The
  result of \<^verbatim>\<open>Token.sign\<close> is the pair "{ accessToken, refreshToken }"; the result of
  \<^verbatim>\<open>Token.refresh\<close> is a new access token and, optionally, a new refresh token.
\<close>

datatype mac = MAC string claims nat nat

datatype jwt = Garbage string | Jwt claims nat nat mac

record tokens =
  accessToken :: jwt
  refreshToken :: jwt

record refreshed =
  r_accessToken :: jwt
  r_refreshToken :: "jwt option"

fun jwt_truthy :: "jwt \<Rightarrow> bool" where
  "jwt_truthy (Garbage s) = (s \<noteq> [])"
| "jwt_truthy (Jwt c iat ex m) = True"

section \<open>The environment of the handlers\<close>

text \<open>
  What Google's endpoints answer. \<open>HttpError\<close> is a request axios rejects (a non-2xx status
  or a network failure); \<open>HttpOk d\<close> carries \<^verbatim>\<open>response.data\<close>, where \<open>None\<close> is a
  falsy body.
\<close>

datatype 'a http = HttpError | HttpOk 'a

record token_params =
  client_id :: "string option"
  client_secret :: "string option"
  auth_code :: string
  grant_type :: string
  redirect_uri :: string

record token_data =
  access_token :: "string option"

text \<open>
  The profile of the userinfo endpoint, also the shape of \<^verbatim>\<open>userProfile\<close> in the mobile
  flow: \<^verbatim>\<open>{ id, name, given_name, family_name, picture, email }\<close>. The endpoint always
  sends \<^verbatim>\<open>id\<close>.
\<close>

record google_profile =
  p_id :: string
  p_name :: "string option"
  p_given_name :: "string option"
  p_family_name :: "string option"
  p_picture :: "string option"
  p_email :: "string option"

text \<open>The claims of a Google identity token that the controller reads.\<close>

record id_payload =
  aud :: "string option"
  sub :: "string option"
  t_email :: "string option"
  t_name :: "string option"
  t_given_name :: "string option"
  t_family_name :: "string option"
  t_picture :: "string option"

text \<open>
  \<^verbatim>\<open>JSON.parse(Buffer.from(segment, "base64").toString())\<close>: it throws (\<open>NotJson\<close>), or
  yields \<^verbatim>\<open>null\<close>, a number, string or boolean (\<open>JsonPrimitive\<close>), or an object.
\<close>

datatype decoded = NotJson | JsonNull | JsonPrimitive | JsonObject id_payload

text \<open>
  The process environment; JavaScript's \<^verbatim>\<open>String.prototype.trim\<close> and
  \<^verbatim>\<open>String.prototype.toLowerCase\<close> and the \<^verbatim>\<open>length\<close> of a string (its number of UTF-16
  code units); the two Google endpoints; the base64/JSON decoder; the checks
  google-auth-library makes on an identity token before it looks at the audience (the
  envelope, the certificate, the signature, the issue and expiry times, the issuer), with
  the message of the error it throws when one of them fails; the validators of the
  \<^verbatim>\<open>validator\<close> package; and the token plugin (not among the sources: a parameter).
\<close>

record env =
  GOOGLE_CLIENT_ID :: "string option"
  GOOGLE_CLIENT_SECRET :: "string option"
  FRONTEND_URL :: "string option"
  JWT_ACCESS_SECRET :: "string option"
  JWT_REFRESH_SECRET :: "string option"
  trim :: "string \<Rightarrow> string"
  toLowerCase :: "string \<Rightarrow> string"
  str_length :: "string \<Rightarrow> nat"
  google_token_endpoint :: "token_params \<Rightarrow> token_data option http"
  google_userinfo :: "string \<Rightarrow> google_profile option http"
  json_of_base64 :: "string \<Rightarrow> decoded"
  google_certs_ok :: "string \<Rightarrow> bool"
  google_verify_message :: "string \<Rightarrow> string"
  isEmail :: "string \<Rightarrow> bool"
  isURL :: "string \<Rightarrow> bool"
  Token_sign :: "nat \<Rightarrow> claims \<Rightarrow> exn + tokens"
  Token_refresh :: "nat \<Rightarrow> jwt \<Rightarrow> exn + refreshed"

section \<open>Mongoose on the user schema\<close>

text \<open>
  \<^verbatim>\<open>new User(data)\<close> starts from the schema's defaults: \<^verbatim>\<open>role\<close> "customer",
  \<^verbatim>\<open>isEmailVerified\<close> and \<^verbatim>\<open>isGoogleUser\<close> false, \<^verbatim>\<open>isActive\<close> true, \<^verbatim>\<open>loginAttempts\<close> 0.
\<close>

definition schema_defaults :: user where
  "schema_defaults =
     \<lparr>user_id = 0, name = None, email = None, password = None, role = Some ''customer'',
      firstName = None, lastName = None, avatar = None, isEmailVerified = False,
      googleId = None, isGoogleUser = False, provider = None, isActive = True,
      lastLogin = None, loginAttempts = 0, createdAt = 0, updatedAt = 0\<rparr>"

text \<open>
  Assignments to a path run the schema's setters: \<^verbatim>\<open>trim\<close> on \<^verbatim>\<open>name\<close>, \<^verbatim>\<open>firstName\<close> and
  \<^verbatim>\<open>lastName\<close>, \<^verbatim>\<open>lowercase\<close> and \<^verbatim>\<open>trim\<close> on \<^verbatim>\<open>email\<close>. Mongoose runs the setters of
  a path from the last declared to the first: an email is trimmed, then put in lower
  case. Assigning \<^verbatim>\<open>undefined\<close> unsets the path.
\<close>

definition set_name :: "env \<Rightarrow> user \<Rightarrow> string option \<Rightarrow> user" where
  "set_name env u v = u\<lparr>name := map_option (trim env) v\<rparr>"

definition set_firstName :: "env \<Rightarrow> user \<Rightarrow> string option \<Rightarrow> user" where
  "set_firstName env u v = u\<lparr>firstName := map_option (trim env) v\<rparr>"

definition set_lastName :: "env \<Rightarrow> user \<Rightarrow> string option \<Rightarrow> user" where
  "set_lastName env u v = u\<lparr>lastName := map_option (trim env) v\<rparr>"

definition set_email :: "env \<Rightarrow> user \<Rightarrow> string option \<Rightarrow> user" where
  "set_email env u v = u\<lparr>email := map_option (\<lambda>s. toLowerCase env (trim env s)) v\<rparr>"

text \<open>
  The validators of the schema, path by path. \<^verbatim>\<open>required\<close> refuses \<^verbatim>\<open>undefined\<close> and the
  empty string; the other validators run on a value that is set, \<^verbatim>\<open>maxlength\<close> and
  \<^verbatim>\<open>minlength\<close> on the \<^verbatim>\<open>length\<close> of the string. \<^verbatim>\<open>password\<close> is required unless
  \<^verbatim>\<open>isGoogleUser\<close>, \<^verbatim>\<open>provider\<close> is required when \<^verbatim>\<open>isGoogleUser\<close>.
\<close>

definition name_valid :: "env \<Rightarrow> user \<Rightarrow> bool" where
  "name_valid env u =
     (case name u of None \<Rightarrow> False | Some s \<Rightarrow> s \<noteq> [] \<and> str_length env s \<le> 100)"

definition email_valid :: "env \<Rightarrow> user \<Rightarrow> bool" where
  "email_valid env u = (case email u of None \<Rightarrow> False | Some s \<Rightarrow> s \<noteq> [] \<and> isEmail env s)"

definition password_valid :: "env \<Rightarrow> user \<Rightarrow> bool" where
  "password_valid env u =
     (case password u of None \<Rightarrow> isGoogleUser u | Some s \<Rightarrow> 6 \<le> str_length env s)"

definition role_valid :: "user \<Rightarrow> bool" where
  "role_valid u =
     (case role u of None \<Rightarrow> False | Some r \<Rightarrow> r \<in> set [''user'', ''admin'', ''customer''])"

definition firstName_valid :: "env \<Rightarrow> user \<Rightarrow> bool" where
  "firstName_valid env u =
     (case firstName u of None \<Rightarrow> True | Some s \<Rightarrow> str_length env s \<le> 50)"

definition lastName_valid :: "env \<Rightarrow> user \<Rightarrow> bool" where
  "lastName_valid env u =
     (case lastName u of None \<Rightarrow> True | Some s \<Rightarrow> str_length env s \<le> 50)"

definition avatar_valid :: "env \<Rightarrow> user \<Rightarrow> bool" where
  "avatar_valid env u = (case avatar u of None \<Rightarrow> True | Some v \<Rightarrow> v = [] \<or> isURL env v)"

definition provider_valid :: "user \<Rightarrow> bool" where
  "provider_valid u =
     (case provider u of None \<Rightarrow> \<not> isGoogleUser u
      | Some p \<Rightarrow> p \<in> set [''google'', ''facebook'', ''apple''])"

text \<open>
  \<^verbatim>\<open>doc.validate()\<close>: the paths that fail, in schema order. \<^verbatim>\<open>password\<close> is
  \<^verbatim>\<open>select: false\<close>, so a document loaded by a query does not carry it and \<^verbatim>\<open>save\<close> does
  not validate it (\<open>withPassword\<close> is false there).
\<close>

definition validate_user :: "env \<Rightarrow> bool \<Rightarrow> user \<Rightarrow> string list" where
  "validate_user env withPassword u =
     (if name_valid env u then [] else [''name'']) @
     (if email_valid env u then [] else [''email'']) @
     (if withPassword \<and> \<not> password_valid env u then [''password''] else []) @
     (if role_valid u then [] else [''role'']) @
     (if firstName_valid env u then [] else [''firstName'']) @
     (if lastName_valid env u then [] else [''lastName'']) @
     (if avatar_valid env u then [] else [''avatar'']) @
     (if provider_valid u then [] else [''provider''])"

text \<open>\<^verbatim>\<open>userSchema.pre("save", ...)\<close>.\<close>

definition pre_save :: "env \<Rightarrow> user \<Rightarrow> user" where
  "pre_save env u =
     (let u1 = (if isGoogleUser u \<and> \<not> isEmailVerified u then u\<lparr>isEmailVerified := True\<rparr> else u)
      in if truthy (firstName u1) \<and> truthy (lastName u1) \<and> \<not> truthy (name u1)
         then set_name env u1 (Some (js_str (firstName u1) @ '' '' @ js_str (lastName u1)))
         else u1)"

text \<open>\<^verbatim>\<open>User.findOne({ googleId })\<close>: the first document with that \<^verbatim>\<open>googleId\<close>.\<close>

definition User_findOne :: "store \<Rightarrow> string \<Rightarrow> user option" where
  "User_findOne s g = find (\<lambda>u. googleId u = Some g) (docs s)"

text \<open>
  \<^verbatim>\<open>User.create(data)\<close>: the document gets a fresh \<^verbatim>\<open>_id\<close> and its timestamps, is
  validated, runs the pre-save hook and is inserted. The only unique index of the schema
  is the one on \<^verbatim>\<open>email\<close> (\<^verbatim>\<open>unique: true\<close>); the index on \<^verbatim>\<open>googleId\<close> is declared
  \<^verbatim>\<open>sparse: true, index: true\<close>. An insert that breaks the unique index fails with
  MongoDB's duplicate-key error.
\<close>

definition User_create :: "env \<Rightarrow> store \<Rightarrow> user \<Rightarrow> nat \<Rightarrow> exn + (user \<times> store)" where
  "User_create env s newUserData now =
     (let doc = newUserData\<lparr>user_id := next_id s, createdAt := now, updatedAt := now\<rparr> in
      case validate_user env True doc of
        p # ps \<Rightarrow> Inl (ValidationError (p # ps))
      | [] \<Rightarrow>
          (let doc' = pre_save env doc in
           if list_ex (\<lambda>u. email u = email doc') (docs s)
           then Inl (MongoServerError ''E11000 duplicate key error: email'')
           else Inr (doc', s\<lparr>docs := docs s @ [doc'], next_id := Suc (next_id s)\<rparr>)))"

text \<open>
  \<^verbatim>\<open>user.save()\<close> on a loaded document: validation, the pre-save hook, then the stored
  document with that \<^verbatim>\<open>_id\<close> is updated; without such a document the save fails. The
  model writes the whole document back, where Mongoose updates the modified paths only;
  the two agree when the store still holds the document as it was loaded, which is the
  case in \<open>oAuthMobile\<close> and \<open>oauthCallback\<close> below: their lookup and their save see the
  same store.
\<close>

fun replace_doc :: "user \<Rightarrow> user list \<Rightarrow> user list" where
  "replace_doc u [] = []"
| "replace_doc u (d # ds) =
     (if user_id d = user_id u then u # ds else d # replace_doc u ds)"

definition User_save :: "env \<Rightarrow> store \<Rightarrow> user \<Rightarrow> nat \<Rightarrow> exn + (user \<times> store)" where
  "User_save env s u now =
     (case validate_user env False u of
        p # ps \<Rightarrow> Inl (ValidationError (p # ps))
      | [] \<Rightarrow>
          (let u' = (pre_save env u)\<lparr>updatedAt := now\<rparr> in
           if list_ex (\<lambda>d. user_id d = user_id u') (docs s)
           then Inr (u', s\<lparr>docs := replace_doc u' (docs s)\<rparr>)
           else Inl DocumentNotFoundError))"

section \<open>google-auth-library: \<^verbatim>\<open>OAuth2Client.verifyIdToken\<close>\<close>

text \<open>
  The library splits the token into three segments, parses the envelope and the payload,
  checks the signature against Google's certificates together with the issue time, the
  expiry and the issuer (\<open>google_certs_ok\<close>), and last checks that the payload's \<^verbatim>\<open>aud\<close> is
  one of the audiences it was given. Each failure is an \<^verbatim>\<open>Error\<close>. The message of a
  failure before the audience check quotes the token, one of its segments or the payload
  (\<open>google_verify_message\<close>), so it may contain any word; the message of the audience
  failure is fixed. On success the ticket holds the payload.
\<close>

definition verifyIdToken :: "env \<Rightarrow> string \<Rightarrow> string list \<Rightarrow> string + id_payload option" where
  "verifyIdToken env idToken audience =
     (case split_dot idToken of
        [h, p, sg] \<Rightarrow>
          (case json_of_base64 env p of
             JsonObject payload \<Rightarrow>
               if \<not> google_certs_ok env idToken then Inl (google_verify_message env idToken)
               else if (case aud payload of None \<Rightarrow> False | Some a \<Rightarrow> a \<in> set audience)
               then Inr (Some payload)
               else Inl ''Wrong recipient, payload audience != requiredAudience''
           | _ \<Rightarrow> Inl (google_verify_message env idToken))
      | _ \<Rightarrow> Inl (''Wrong number of segments in token: '' @ idToken))"

section \<open>The OAuth helper service (src/controller/auth/service.ts)\<close>

text \<open>The form \<^verbatim>\<open>exchangeCodeForToken\<close> posts to Google's token endpoint.\<close>

definition exchange_params :: "env \<Rightarrow> string \<Rightarrow> token_params" where
  "exchange_params env code =
     \<lparr>client_id = GOOGLE_CLIENT_ID env, client_secret = GOOGLE_CLIENT_SECRET env,
      auth_code = code, grant_type = ''authorization_code'',
      redirect_uri = js_str (FRONTEND_URL env) @ ''/auth/callback''\<rparr>"

definition exchangeCodeForToken :: "env \<Rightarrow> string \<Rightarrow> token_data option" where
  "exchangeCodeForToken env code =
     (case google_token_endpoint env (exchange_params env code) of
        HttpError \<Rightarrow> None
      | HttpOk d \<Rightarrow> d)"

text \<open>The access token is interpolated into the URL, \<^verbatim>\<open>undefined\<close> as the word.\<close>

definition getUserProfile :: "env \<Rightarrow> string option \<Rightarrow> google_profile option" where
  "getUserProfile env token =
     (case google_userinfo env (js_str token) of HttpError \<Rightarrow> None | HttpOk d \<Rightarrow> d)"

section \<open>The authentication controller (src/controller/auth)\<close>

text \<open>
  A response is its status and its JSON body. \<open>s_provider\<close> is only sent by the mobile
  flow. A step of a handler goes on with a value, returns a response, or throws.
\<close>

record user_summary =
  s_id :: nat
  s_name :: "string option"
  s_email :: "string option"
  s_avatar :: "string option"
  s_role :: "string option"
  s_provider :: "string option"

datatype json_body =
    ErrorBody string string
  | AudienceMismatch string string "string option" "string option"
  | ValidationFailed string string "string list"
  | ErrorOnly string
  | LoginOk user_summary tokens
  | Refreshed refreshed

record response =
  status :: nat
  body :: json_body

datatype 'a step = Continue 'a | Return response | Throw exn

text \<open>The payload of the session tokens: \<^verbatim>\<open>{ name: user.name, idUser: user.id, role: user.role }\<close>.\<close>

definition login_payload :: "user \<Rightarrow> claims" where
  "login_payload u = \<lparr>c_name = name u, idUser = user_id u, c_role = role u\<rparr>"

subsection \<open>\<^verbatim>\<open>oauthCallback\<close>: the browser flow\<close>

record callback_body =
  body_code :: "string option"

definition update_existing_callback :: "env \<Rightarrow> user \<Rightarrow> google_profile \<Rightarrow> nat \<Rightarrow> user" where
  "update_existing_callback env u profile now =
     (let u1 = set_name env u (p_name profile);
          u2 = set_firstName env u1 (p_given_name profile);
          u3 = set_lastName env u2 (p_family_name profile);
          u4 = u3\<lparr>avatar := p_picture profile\<rparr>
      in u4\<lparr>lastLogin := Some now\<rparr>)"

definition newUserData_callback :: "env \<Rightarrow> google_profile \<Rightarrow> nat \<Rightarrow> user" where
  "newUserData_callback env profile now =
     (let d1 = schema_defaults\<lparr>googleId := Some (p_id profile)\<rparr>;
          d2 = set_name env d1 (p_name profile);
          d3 = set_firstName env d2 (p_given_name profile);
          d4 = set_lastName env d3 (p_family_name profile);
          d5 = d4\<lparr>avatar := p_picture profile\<rparr>;
          d6 = set_email env d5 (p_email profile)
      in d6\<lparr>isGoogleUser := True, isEmailVerified := True, role := Some ''customer'',
             lastLogin := Some now\<rparr>)"

definition callback_catch :: "exn \<Rightarrow> response" where
  "callback_catch e =
     \<lparr>status = 500,
      body = ErrorBody ''Internal server error''
               ''An error occurred during OAuth authentication''\<rparr>"

definition callback_success :: "user \<Rightarrow> tokens \<Rightarrow> response" where
  "callback_success u tk =
     \<lparr>status = 200,
      body = LoginOk \<lparr>s_id = user_id u, s_name = name u, s_email = email u,
                      s_avatar = avatar u, s_role = role u, s_provider = None\<rparr> tk\<rparr>"

text \<open>
  The handler from the answer of \<^verbatim>\<open>User.findOne\<close> on: update or create
  (\<open>reconcile_callback\<close>), sign, respond. \<open>found\<close> is what the lookup returned; the store
  is the collection at the time of the write, which is the collection the lookup saw
  unless another request wrote in between.
\<close>

definition reconcile_callback ::
  "env \<Rightarrow> store \<Rightarrow> user option \<Rightarrow> google_profile \<Rightarrow> nat \<Rightarrow> exn + (user \<times> store)" where
  "reconcile_callback env s found profile now =
     (case found of
        Some u \<Rightarrow> User_save env s (update_existing_callback env u profile now) now
      | None \<Rightarrow> User_create env s (newUserData_callback env profile now) now)"

definition oauthCallback_resume ::
  "env \<Rightarrow> store \<Rightarrow> user option \<Rightarrow> google_profile \<Rightarrow> nat \<Rightarrow> response \<times> store" where
  "oauthCallback_resume env s found profile now =
     (case reconcile_callback env s found profile now of
        Inl e \<Rightarrow> (callback_catch e, s)
      | Inr (u, s') \<Rightarrow>
          (case Token_sign env now (login_payload u) of
             Inl e \<Rightarrow> (callback_catch e, s')
           | Inr tk \<Rightarrow> (callback_success u tk, s')))"

definition missing_code :: response where
  "missing_code =
     \<lparr>status = 400,
      body = ErrorBody ''Missing authorization code'' ''Authorization code is required''\<rparr>"

definition token_exchange_failed :: response where
  "token_exchange_failed =
     \<lparr>status = 400,
      body = ErrorBody ''Token exchange failed''
               ''Failed to exchange authorization code for access token''\<rparr>"

definition profile_fetch_failed :: response where
  "profile_fetch_failed =
     \<lparr>status = 400,
      body = ErrorBody ''Profile fetch failed'' ''Failed to fetch user profile from Google''\<rparr>"

text \<open>The handler up to the database lookup: the code exchange and the profile fetch.\<close>

definition verify_callback :: "env \<Rightarrow> callback_body \<Rightarrow> google_profile step" where
  "verify_callback env b =
     (case body_code b of
        None \<Rightarrow> Return missing_code
      | Some code \<Rightarrow>
          if code = [] then Return missing_code
          else
            (case exchangeCodeForToken env code of
               None \<Rightarrow> Return token_exchange_failed
             | Some tokenData \<Rightarrow>
                 (case getUserProfile env (access_token tokenData) of
                    None \<Rightarrow> Return profile_fetch_failed
                  | Some profile \<Rightarrow> Continue profile)))"

definition oauthCallback :: "env \<Rightarrow> store \<Rightarrow> callback_body \<Rightarrow> nat \<Rightarrow> response \<times> store" where
  "oauthCallback env s b now =
     (case verify_callback env b of
        Return r \<Rightarrow> (r, s)
      | Throw e \<Rightarrow> (callback_catch e, s)
      | Continue profile \<Rightarrow>
          oauthCallback_resume env s (User_findOne s (p_id profile)) profile now)"

subsection \<open>\<^verbatim>\<open>oAuthMobile\<close>: the mobile flow\<close>

record mobile_body =
  body_tokenId :: "string option"
  body_provider :: "string option"

definition supportedProviders :: "string list" where
  "supportedProviders = [''google'']"

definition decode_failed :: response where
  "decode_failed =
     \<lparr>status = 401, body = ErrorBody ''Token decode failed'' ''Invalid token format''\<rparr>"

text \<open>The unverified decoding of the token's payload, in its own try block.\<close>

definition decode_unverified :: "env \<Rightarrow> string \<Rightarrow> decoded step" where
  "decode_unverified env tokenId =
     (let parts = split_dot tokenId in
      if length parts \<noteq> 3 then Return decode_failed
      else (case json_of_base64 env (parts ! 1) of
              NotJson \<Rightarrow> Return decode_failed
            | d \<Rightarrow> Continue d))"

text \<open>\<^verbatim>\<open>tokenPayload.aud\<close>: a TypeError on \<^verbatim>\<open>null\<close>, \<^verbatim>\<open>undefined\<close> on a primitive.\<close>

fun payload_aud :: "decoded \<Rightarrow> exn + string option" where
  "payload_aud JsonNull = Inl TypeError"
| "payload_aud (JsonObject p) = Inr (aud p)"
| "payload_aud JsonPrimitive = Inr None"
| "payload_aud NotJson = Inr None"

text \<open>
  \<^verbatim>\<open>[process.env.GOOGLE_CLIENT_ID, tokenPayload.aud].filter(Boolean)\<close>: the configured
  client id and the audience the token itself names.
\<close>

definition allowedAudiences :: "env \<Rightarrow> string option \<Rightarrow> string list" where
  "allowedAudiences env tokenAud = map the (filter truthy [GOOGLE_CLIENT_ID env, tokenAud])"

text \<open>\<^verbatim>\<open>userProfile\<close>: the name falls back to the email.\<close>

definition userProfile_of :: "id_payload \<Rightarrow> google_profile" where
  "userProfile_of profile =
     \<lparr>p_id = the (sub profile),
      p_name = or_else (t_name profile) (t_email profile),
      p_given_name = t_given_name profile,
      p_family_name = t_family_name profile,
      p_picture = t_picture profile,
      p_email = t_email profile\<rparr>"

definition extract_profile :: "id_payload option \<Rightarrow> google_profile step" where
  "extract_profile ticket =
     (case ticket of
        None \<Rightarrow>
          Return \<lparr>status = 400,
                  body = ErrorBody ''Invalid token''
                           ''Failed to extract user profile from token''\<rparr>
      | Some profile \<Rightarrow>
          if \<not> truthy (sub profile) \<or> \<not> truthy (t_email profile) then
            Return \<lparr>status = 400,
                    body = ErrorBody ''Incomplete profile''
                             ''Required user information missing from Google profile''\<rparr>
          else Continue (userProfile_of profile))"

definition verify_google :: "env \<Rightarrow> string \<Rightarrow> google_profile step" where
  "verify_google env tokenId =
     (case decode_unverified env tokenId of
        Return r \<Rightarrow> Return r
      | Throw e \<Rightarrow> Throw e
      | Continue tokenPayload \<Rightarrow>
          (case payload_aud tokenPayload of
             Inl e \<Rightarrow> Throw e
           | Inr tokenAud \<Rightarrow>
               (case verifyIdToken env tokenId (allowedAudiences env tokenAud) of
                  Inl message \<Rightarrow>
                    if str_includes message ''audience'' then
                      Return \<lparr>status = 401,
                              body = AudienceMismatch ''Audience mismatch''
                                (''The token was issued for a different client ID. '' @
                                 ''Please check your Google OAuth configuration.'')
                                tokenAud (GOOGLE_CLIENT_ID env)\<rparr>
                    else
                      Return \<lparr>status = 401,
                              body = ErrorBody ''Token verification failed''
                                       ''Invalid or expired Google ID token''\<rparr>
                | Inr ticket \<Rightarrow> extract_profile ticket)))"

definition missing_token :: response where
  "missing_token = \<lparr>status = 400, body = ErrorBody ''Missing token ID'' ''Token ID is required''\<rparr>"

definition missing_provider :: response where
  "missing_provider =
     \<lparr>status = 400, body = ErrorBody ''Missing provider'' ''Provider is required''\<rparr>"

definition unsupported_provider :: "string \<Rightarrow> response" where
  "unsupported_provider prov =
     \<lparr>status = 400,
      body = ErrorBody ''Unsupported provider''
               (''Provider '' @ [CHR 0x27] @ prov @ [CHR 0x27] @
                '' is not supported. Supported providers: google'')\<rparr>"

text \<open>
  The handler up to the database lookup: the validated profile and the provider as sent.
\<close>

definition verify_mobile :: "env \<Rightarrow> mobile_body \<Rightarrow> (google_profile \<times> string) step" where
  "verify_mobile env b =
     (case body_tokenId b of
        None \<Rightarrow> Return missing_token
      | Some tokenId \<Rightarrow>
          if tokenId = [] then Return missing_token
          else
            (case body_provider b of
               None \<Rightarrow> Return missing_provider
             | Some prov \<Rightarrow>
                 if prov = [] then Return missing_provider
                 else if toLowerCase env prov \<notin> set supportedProviders
                 then Return (unsupported_provider prov)
                 else if toLowerCase env prov \<noteq> ''google''
                 then Return \<lparr>status = 400,
                              body = ErrorBody ''Provider not implemented''
                                       ''Only Google OAuth is currently implemented''\<rparr>
                 else
                   (case verify_google env tokenId of
                      Return r \<Rightarrow> Return r
                    | Throw e \<Rightarrow> Throw e
                    | Continue userProfile \<Rightarrow> Continue (userProfile, prov))))"

definition update_existing_mobile ::
  "env \<Rightarrow> user \<Rightarrow> google_profile \<Rightarrow> string \<Rightarrow> nat \<Rightarrow> user" where
  "update_existing_mobile env u userProfile prov now =
     (let u1 = set_name env u (p_name userProfile);
          u2 = set_firstName env u1 (p_given_name userProfile);
          u3 = set_lastName env u2 (p_family_name userProfile);
          u4 = u3\<lparr>avatar := p_picture userProfile\<rparr>;
          u5 = u4\<lparr>lastLogin := Some now\<rparr>
      in if \<not> truthy (provider u5) then u5\<lparr>provider := Some (toLowerCase env prov)\<rparr>
         else u5)"

definition newUserData_mobile :: "env \<Rightarrow> google_profile \<Rightarrow> string \<Rightarrow> nat \<Rightarrow> user" where
  "newUserData_mobile env userProfile prov now =
     (let d1 = schema_defaults\<lparr>googleId := Some (p_id userProfile)\<rparr>;
          d2 = set_name env d1 (p_name userProfile);
          d3 = set_firstName env d2 (p_given_name userProfile);
          d4 = set_lastName env d3 (p_family_name userProfile);
          d5 = d4\<lparr>avatar := p_picture userProfile\<rparr>;
          d6 = set_email env d5 (p_email userProfile)
      in d6\<lparr>isGoogleUser := True, isEmailVerified := True, role := Some ''customer'',
             lastLogin := Some now, provider := Some (toLowerCase env prov)\<rparr>)"

fun exn_details :: "exn \<Rightarrow> string list" where
  "exn_details (ValidationError ps) = ps"
| "exn_details e = []"

definition mobile_catch :: "exn \<Rightarrow> response" where
  "mobile_catch e =
     (if exn_name e = ''ValidationError'' then
        \<lparr>status = 400,
         body = ValidationFailed ''Validation error'' ''User data validation failed''
                  (exn_details e)\<rparr>
      else
        \<lparr>status = 500,
         body = ErrorBody ''Internal server error''
                  ''An error occurred during OAuth mobile authentication''\<rparr>)"

definition mobile_success :: "user \<Rightarrow> tokens \<Rightarrow> response" where
  "mobile_success u tk =
     \<lparr>status = 200,
      body = LoginOk \<lparr>s_id = user_id u, s_name = name u, s_email = email u,
                      s_avatar = avatar u, s_role = role u, s_provider = provider u\<rparr> tk\<rparr>"

definition reconcile_mobile ::
  "env \<Rightarrow> store \<Rightarrow> user option \<Rightarrow> google_profile \<Rightarrow> string \<Rightarrow> nat \<Rightarrow> exn + (user \<times> store)"
  where
  "reconcile_mobile env s found userProfile prov now =
     (case found of
        Some u \<Rightarrow> User_save env s (update_existing_mobile env u userProfile prov now) now
      | None \<Rightarrow> User_create env s (newUserData_mobile env userProfile prov now) now)"

definition oAuthMobile_resume ::
  "env \<Rightarrow> store \<Rightarrow> user option \<Rightarrow> google_profile \<Rightarrow> string \<Rightarrow> nat \<Rightarrow> response \<times> store" where
  "oAuthMobile_resume env s found userProfile prov now =
     (case reconcile_mobile env s found userProfile prov now of
        Inl e \<Rightarrow> (mobile_catch e, s)
      | Inr (u, s') \<Rightarrow>
          (case Token_sign env now (login_payload u) of
             Inl e \<Rightarrow> (mobile_catch e, s')
           | Inr tk \<Rightarrow> (mobile_success u tk, s')))"

definition oAuthMobile :: "env \<Rightarrow> store \<Rightarrow> mobile_body \<Rightarrow> nat \<Rightarrow> response \<times> store" where
  "oAuthMobile env s b now =
     (case verify_mobile env b of
        Return r \<Rightarrow> (r, s)
      | Throw e \<Rightarrow> (mobile_catch e, s)
      | Continue (userProfile, prov) \<Rightarrow>
          oAuthMobile_resume env s (User_findOne s (p_id userProfile)) userProfile prov now)"

subsection \<open>\<^verbatim>\<open>loginWithToken\<close>: the refresh route\<close>

text \<open>
  The handler answers, or lets the error of \<^verbatim>\<open>Token.refresh\<close> escape: its catch block
  throws the error again. The message of the first response is the source's, without its
  diacritics.
\<close>

record refresh_body =
  body_refreshToken :: "jwt option"

datatype handled = Responded response | Unhandled exn

definition loginWithToken :: "env \<Rightarrow> nat \<Rightarrow> refresh_body \<Rightarrow> handled" where
  "loginWithToken env now b =
     (case body_refreshToken b of
        None \<Rightarrow> Responded \<lparr>status = 500, body = ErrorOnly ''Thieu thong tin''\<rparr>
      | Some t \<Rightarrow>
          if \<not> jwt_truthy t then Responded \<lparr>status = 500, body = ErrorOnly ''Thieu thong tin''\<rparr>
          else
            (case Token_refresh env now t of
               Inl e \<Rightarrow> Unhandled e
             | Inr tk \<Rightarrow> Responded \<lparr>status = 200, body = Refreshed tk\<rparr>))"

section \<open>The signing secrets (src/plugin/config)\<close>

text \<open>\<^verbatim>\<open>process.env.JWT_ACCESS_SECRET || "k2y_acc3ss"\<close>, and the same for the refresh secret.\<close>

definition key_access :: "env \<Rightarrow> string" where
  "key_access env =
     (if truthy (JWT_ACCESS_SECRET env) then the (JWT_ACCESS_SECRET env) else ''k2y_acc3ss'')"

definition key_refresh :: "env \<Rightarrow> string" where
  "key_refresh env =
     (if truthy (JWT_REFRESH_SECRET env) then the (JWT_REFRESH_SECRET env) else ''k2y_refr3sh'')"

section \<open>The token plugin, as the specification describes it\<close>

text \<open>
  Modelled from the spec: the lifetimes of the two token classes and whether a refresh
  also issues a new refresh token. The token plugin (src/plugin/token, with
  \<^verbatim>\<open>Token.sign\<close> and \<^verbatim>\<open>Token.refresh\<close>) is not among the sources; the specification
  says "access tokens are short-lived; refresh tokens are longer-lived" and "re-issue a
  fresh access token (and optionally a fresh refresh token)".
\<close>

record token_config =
  access_ttl :: nat
  refresh_ttl :: nat
  rotate_refresh :: bool

text \<open>
  Modelled from the spec: a signed token "encoding { subjectId, displayName, role } plus
  standard expiry claims", signed with the secret of its class.
\<close>

definition sign_with :: "string \<Rightarrow> claims \<Rightarrow> nat \<Rightarrow> nat \<Rightarrow> jwt" where
  "sign_with key c now ttl = Jwt c now (now + ttl) (MAC key c now (now + ttl))"

text \<open>
  Modelled from the spec: \<^verbatim>\<open>Token.sign\<close>, "sign an access token with short expiry and a
  refresh token with long expiry, both using a server-held secret distinct per token
  class".
\<close>

definition spec_Token_sign :: "token_config \<Rightarrow> env \<Rightarrow> nat \<Rightarrow> claims \<Rightarrow> exn + tokens" where
  "spec_Token_sign cfg env now c =
     Inr \<lparr>accessToken = sign_with (key_access env) c now (access_ttl cfg),
          refreshToken = sign_with (key_refresh env) c now (refresh_ttl cfg)\<rparr>"

text \<open>
  Modelled from the spec: verification of a token, "validity is entirely determined by
  signature and embedded expiry". It yields the payload of a token whose signature was
  computed with the given secret over the token's own content and which has not expired.
\<close>

fun jwt_verify :: "string \<Rightarrow> nat \<Rightarrow> jwt \<Rightarrow> claims option" where
  "jwt_verify key now (Garbage s) = None"
| "jwt_verify key now (Jwt c iat ex m) =
     (if m = MAC key c iat ex \<and> now < ex then Some c else None)"

text \<open>
  Modelled from the spec: \<^verbatim>\<open>Token.refresh\<close>, "given a valid, non-expired refresh token,
  verify its signature and re-issue a fresh access token (and optionally a fresh refresh
  token) bound to the same claims; fails with InvalidRefreshTokenError if signature/expiry
  check fails".
\<close>

definition spec_Token_refresh :: "token_config \<Rightarrow> env \<Rightarrow> nat \<Rightarrow> jwt \<Rightarrow> exn + refreshed" where
  "spec_Token_refresh cfg env now t =
     (case jwt_verify (key_refresh env) now t of
        None \<Rightarrow> Inl InvalidRefreshTokenError
      | Some c \<Rightarrow>
          Inr \<lparr>r_accessToken = sign_with (key_access env) c now (access_ttl cfg),
               r_refreshToken =
                 (if rotate_refresh cfg
                  then Some (sign_with (key_refresh env) c now (refresh_ttl cfg))
                  else None)\<rparr>)"

text \<open>
  Modelled from the spec: an environment whose token plugin is the one the specification
  describes.
\<close>

definition with_spec_tokens :: "token_config \<Rightarrow> env \<Rightarrow> env" where
  "with_spec_tokens cfg env =
     env\<lparr>Token_sign := spec_Token_sign cfg env, Token_refresh := spec_Token_refresh cfg env\<rparr>"

section \<open>The collection's invariant\<close>

text \<open>
  MongoDB keeps \<^verbatim>\<open>_id\<close> unique, and a fresh \<^verbatim>\<open>_id\<close> is none of the ids in use.
  \<open>accounts_of\<close> are the documents with a given \<^verbatim>\<open>googleId\<close>. \<open>keeps_standing u u'\<close>
  relates an account to its later state: the same account, the same role, and a verified
  email still verified.
\<close>

definition store_ok :: "store \<Rightarrow> bool" where
  "store_ok s =
     (distinct (map user_id (docs s)) \<and> list_all (\<lambda>u. user_id u < next_id s) (docs s))"

definition accounts_of :: "store \<Rightarrow> string \<Rightarrow> user list" where
  "accounts_of s g = filter (\<lambda>u. googleId u = Some g) (docs s)"

definition keeps_standing :: "user \<Rightarrow> user \<Rightarrow> bool" where
  "keeps_standing u u' =
     (user_id u' = user_id u \<and> role u' = role u \<and>
      (isEmailVerified u \<longrightarrow> isEmailVerified u'))"

section \<open>Example data\<close>

text \<open>
  A configuration with client id "client-123". Four identity tokens verify against
  Google's certificates: one issued to "client-999" and three issued to "client-123", all
  for the Google account "g123"; the last of them carries a picture that is not a URL.
  The authorization code "good-code" is exchanged for an access token that fetches Bob's
  profile; the code "no-token-code" is answered without an \<^verbatim>\<open>access_token\<close> field; any
  other code is rejected.
\<close>

definition payload_999 :: id_payload where
  "payload_999 =
     \<lparr>aud = Some ''client-999'', sub = Some ''g123'', t_email = Some ''a@b.com'',
      t_name = None, t_given_name = None, t_family_name = None, t_picture = None\<rparr>"

definition payload_alice :: id_payload where
  "payload_alice =
     \<lparr>aud = Some ''client-123'', sub = Some ''g123'', t_email = Some ''a@b.com'',
      t_name = Some ''Alice'', t_given_name = Some ''Alice'', t_family_name = Some ''Doe'',
      t_picture = Some ''https://img.example/alice.png''\<rparr>"

definition payload_padded :: id_payload where
  "payload_padded =
     \<lparr>aud = Some ''client-123'', sub = Some ''g123'', t_email = Some ''a@b.com'',
      t_name = Some '' Alice D. '', t_given_name = Some ''Alice'', t_family_name = Some ''D.'',
      t_picture = None\<rparr>"

definition profile_bob :: google_profile where
  "profile_bob =
     \<lparr>p_id = ''g1'', p_name = Some ''Bob Smith'', p_given_name = Some ''Bob'',
      p_family_name = Some ''Smith'', p_picture = Some ''https://img.example/bob.png'',
      p_email = Some ''bob@example.com''\<rparr>"

definition payload_badpic :: id_payload where
  "payload_badpic =
     \<lparr>aud = Some ''client-123'', sub = Some ''g123'', t_email = Some ''a@b.com'',
      t_name = Some ''Alice'', t_given_name = Some ''Alice'', t_family_name = Some ''Doe'',
      t_picture = Some ''not a url''\<rparr>"

text \<open>
  The string functions of the example are those of JavaScript on text in the ASCII range,
  which is all the examples contain: \<open>ascii_toLowerCase\<close> lowers the letters A to Z (bit 5,
  of value 32, is set), \<open>ascii_trim\<close> removes tab, line feed, vertical tab, form feed,
  carriage return and space at both ends, and the length is the number of characters.
\<close>

definition toLowerCase_char :: "char \<Rightarrow> char" where
  "toLowerCase_char c =
     (let n = (of_char c :: nat) in
        if 65 \<le> n \<and> n \<le> 90
        then (case c of Char b0 b1 b2 b3 b4 b5 b6 b7 \<Rightarrow> Char b0 b1 b2 b3 b4 True b6 b7)
        else c)"

definition ascii_toLowerCase :: "string \<Rightarrow> string" where
  "ascii_toLowerCase s = map toLowerCase_char s"

definition is_space :: "char \<Rightarrow> bool" where
  "is_space c = (let n = (of_char c :: nat) in (9 \<le> n \<and> n \<le> 13) \<or> n = 32)"

definition ascii_trim :: "string \<Rightarrow> string" where
  "ascii_trim s = rev (dropWhile is_space (rev (dropWhile is_space s)))"

definition example_config :: token_config where
  "example_config = \<lparr>access_ttl = 900, refresh_ttl = 86400, rotate_refresh = False\<rparr>"

definition example_base :: env where
  "example_base =
     \<lparr>GOOGLE_CLIENT_ID = Some ''client-123'', GOOGLE_CLIENT_SECRET = Some ''shh'',
      FRONTEND_URL = Some ''https://shop.example'',
      JWT_ACCESS_SECRET = None, JWT_REFRESH_SECRET = None,
      trim = ascii_trim, toLowerCase = ascii_toLowerCase, str_length = length,
      google_token_endpoint =
        (\<lambda>p. if auth_code p = ''good-code'' then HttpOk (Some \<lparr>access_token = Some ''ya29.good''\<rparr>)
             else if auth_code p = ''no-token-code'' then HttpOk (Some \<lparr>access_token = None\<rparr>)
             else HttpError),
      google_userinfo = (\<lambda>t. if t = ''ya29.good'' then HttpOk (Some profile_bob) else HttpError),
      json_of_base64 =
        (\<lambda>seg. if seg = ''p999'' then JsonObject payload_999
               else if seg = ''palice'' then JsonObject payload_alice
               else if seg = ''ppadded'' then JsonObject payload_padded
               else if seg = ''pbadpic'' then JsonObject payload_badpic
               else NotJson),
      google_certs_ok =
        (\<lambda>t. t \<in> set [''h.p999.s'', ''h.palice.s'', ''h.ppadded.s'', ''h.pbadpic.s'']),
      google_verify_message = (\<lambda>t. ''Invalid token signature: '' @ t),
      isEmail = (\<lambda>e. CHR ''@'' \<in> set e),
      isURL = (\<lambda>v. starts_with v ''https://''),
      Token_sign = (\<lambda>now c. Inl (JsError ''Error'')),
      Token_refresh = (\<lambda>now t. Inl (JsError ''Error''))\<rparr>"

text \<open>The example with the token plugin of the specification, and with one that fails.\<close>

definition example_env :: env where
  "example_env = with_spec_tokens example_config example_base"

definition failing_sign_env :: env where
  "failing_sign_env = example_base"

text \<open>
  Stores: an empty collection; one with a password account that owns "a@b.com"; one with
  the Google account "g123" as the mobile flow creates it at time 1000 from the first
  token; one with a Google account "g1" from before \<^verbatim>\<open>provider\<close> was tracked; and one
  with an account linked to "g1" that is not marked as a Google user.
\<close>

definition empty_store :: store where
  "empty_store = \<lparr>docs = [], next_id = 0\<rparr>"

definition password_account :: user where
  "password_account =
     schema_defaults\<lparr>user_id := 0, name := Some ''Ann'', email := Some ''a@b.com'',
       password := Some ''5e884898da28'', role := Some ''user'', createdAt := 10, updatedAt := 10\<rparr>"

definition password_store :: store where
  "password_store = \<lparr>docs = [password_account], next_id = 1\<rparr>"

definition account_g123 :: user where
  "account_g123 =
     schema_defaults\<lparr>user_id := 0, name := Some ''a@b.com'', email := Some ''a@b.com'',
       isEmailVerified := True, googleId := Some ''g123'', isGoogleUser := True,
       provider := Some ''google'', lastLogin := Some 1000, createdAt := 1000, updatedAt := 1000\<rparr>"

definition store_g123 :: store where
  "store_g123 = \<lparr>docs = [account_g123], next_id = 1\<rparr>"

definition legacy_account :: user where
  "legacy_account =
     schema_defaults\<lparr>user_id := 0, name := Some ''Bob'', email := Some ''bob@example.com'',
       role := Some ''admin'', isEmailVerified := True, googleId := Some ''g1'',
       isGoogleUser := True, lastLogin := Some 10, createdAt := 10, updatedAt := 10\<rparr>"

definition legacy_store :: store where
  "legacy_store = \<lparr>docs = [legacy_account], next_id = 1\<rparr>"

definition linked_account :: user where
  "linked_account = legacy_account\<lparr>isGoogleUser := False, password := Some ''5e884898da28''\<rparr>"

definition linked_store :: store where
  "linked_store = \<lparr>docs = [linked_account], next_id = 1\<rparr>"

text \<open>
  The account the mobile flow creates from Alice's token at time 1000, and the linked
  account after a browser login with Bob's profile at time 1000.
\<close>

definition account_alice :: user where
  "account_alice =
     schema_defaults\<lparr>user_id := 0, name := Some ''Alice'', email := Some ''a@b.com'',
       firstName := Some ''Alice'', lastName := Some ''Doe'',
       avatar := Some ''https://img.example/alice.png'',
       isEmailVerified := True, googleId := Some ''g123'', isGoogleUser := True,
       provider := Some ''google'', lastLogin := Some 1000, createdAt := 1000, updatedAt := 1000\<rparr>"

definition linked_account_bob :: user where
  "linked_account_bob =
     linked_account\<lparr>name := Some ''Bob Smith'', firstName := Some ''Bob'', lastName := Some ''Smith'',
       avatar := Some ''https://img.example/bob.png'', lastLogin := Some 1000, updatedAt := 1000\<rparr>"

text \<open>
  The account "g123" after the login with the padded token at time 3000; and the same
  Google account promoted to admin, before and after a login with Alice's token at time
  5000.
\<close>

definition account_padded :: user where
  "account_padded =
     account_g123\<lparr>name := Some ''Alice D.'', firstName := Some ''Alice'', lastName := Some ''D.'',
       lastLogin := Some 3000, updatedAt := 3000\<rparr>"

definition account_admin :: user where
  "account_admin = account_g123\<lparr>role := Some ''admin''\<rparr>"

definition admin_store :: store where
  "admin_store = \<lparr>docs = [password_account\<lparr>user_id := 7\<rparr>, account_admin], next_id = 8\<rparr>"

definition account_admin_alice :: user where
  "account_admin_alice =
     account_admin\<lparr>name := Some ''Alice'', firstName := Some ''Alice'', lastName := Some ''Doe'',
       avatar := Some ''https://img.example/alice.png'', lastLogin := Some 5000,
       updatedAt := 5000\<rparr>"

text \<open>A store with a password account that owns Bob's email.\<close>

definition bob_password_store :: store where
  "bob_password_store =
     \<lparr>docs = [password_account\<lparr>name := Some ''Bob'', email := Some ''bob@example.com''\<rparr>],
      next_id = 1\<rparr>"

text \<open>
  A store with the Google account "g123" from before \<^verbatim>\<open>provider\<close> was tracked, and that
  account after a mobile login with Alice's token at time 5000.
\<close>

definition legacy_store_g123 :: store where
  "legacy_store_g123 = \<lparr>docs = [legacy_account\<lparr>googleId := Some ''g123''\<rparr>], next_id = 1\<rparr>"

definition legacy_account_alice :: user where
  "legacy_account_alice =
     legacy_account\<lparr>googleId := Some ''g123'', name := Some ''Alice'', firstName := Some ''Alice'',
       lastName := Some ''Doe'', avatar := Some ''https://img.example/alice.png'',
       provider := Some ''google'', lastLogin := Some 5000, updatedAt := 5000\<rparr>"

text \<open>The example environment when the first token's payload has no email.\<close>

definition no_email_env :: env where
  "no_email_env =
     example_env\<lparr>json_of_base64 := (\<lambda>seg. JsonObject (payload_999\<lparr>t_email := None\<rparr>))\<rparr>"

section \<open>Collections of definitions\<close>

lemmas js_defs = truthy_def js_str_def or_else_def ascii_toLowerCase_def toLowerCase_char_def
  is_space_def ascii_trim_def split_dot_def

lemmas schema_defs = validate_user_def name_valid_def email_valid_def password_valid_def
  role_valid_def firstName_valid_def lastName_valid_def avatar_valid_def provider_valid_def
  pre_save_def set_name_def set_firstName_def set_lastName_def set_email_def
  schema_defaults_def

lemmas payload_defs = payload_999_def payload_alice_def payload_padded_def payload_badpic_def
  profile_bob_def

lemmas store_defs = empty_store_def password_store_def password_account_def
  store_g123_def account_g123_def legacy_store_def legacy_account_def
  linked_store_def linked_account_def

lemmas eval_defs = reconcile_mobile_def reconcile_callback_def User_findOne_def User_create_def
  User_save_def newUserData_mobile_def newUserData_callback_def update_existing_mobile_def
  update_existing_callback_def userProfile_of_def Let_def

section \<open>Fields through the schema operations\<close>

lemma pre_save_fields:
  "user_id (pre_save env u) = user_id u"
  "googleId (pre_save env u) = googleId u"
  "role (pre_save env u) = role u"
  "email (pre_save env u) = email u"
  "provider (pre_save env u) = provider u"
  "firstName (pre_save env u) = firstName u"
  "lastName (pre_save env u) = lastName u"
  "avatar (pre_save env u) = avatar u"
  "lastLogin (pre_save env u) = lastLogin u"
  "isGoogleUser (pre_save env u) = isGoogleUser u"
  "isEmailVerified u \<Longrightarrow> isEmailVerified (pre_save env u)"
  "truthy (name u) \<Longrightarrow> name (pre_save env u) = name u"
  by (simp_all add: pre_save_def set_name_def Let_def)

lemma update_existing_mobile_fields:
  "user_id (update_existing_mobile env u up prov now) = user_id u"
  "googleId (update_existing_mobile env u up prov now) = googleId u"
  "role (update_existing_mobile env u up prov now) = role u"
  "email (update_existing_mobile env u up prov now) = email u"
  "isEmailVerified (update_existing_mobile env u up prov now) = isEmailVerified u"
  "isGoogleUser (update_existing_mobile env u up prov now) = isGoogleUser u"
  "name (update_existing_mobile env u up prov now) = map_option (trim env) (p_name up)"
  "firstName (update_existing_mobile env u up prov now) = map_option (trim env) (p_given_name up)"
  "lastName (update_existing_mobile env u up prov now) = map_option (trim env) (p_family_name up)"
  "avatar (update_existing_mobile env u up prov now) = p_picture up"
  "lastLogin (update_existing_mobile env u up prov now) = Some now"
  "provider (update_existing_mobile env u up prov now)
     = (if truthy (provider u) then provider u else Some (toLowerCase env prov))"
  by (simp_all add: update_existing_mobile_def set_name_def set_firstName_def set_lastName_def
      Let_def)

lemma update_existing_callback_fields:
  "user_id (update_existing_callback env u up now) = user_id u"
  "googleId (update_existing_callback env u up now) = googleId u"
  "role (update_existing_callback env u up now) = role u"
  "email (update_existing_callback env u up now) = email u"
  "isEmailVerified (update_existing_callback env u up now) = isEmailVerified u"
  "isGoogleUser (update_existing_callback env u up now) = isGoogleUser u"
  "name (update_existing_callback env u up now) = map_option (trim env) (p_name up)"
  "firstName (update_existing_callback env u up now) = map_option (trim env) (p_given_name up)"
  "lastName (update_existing_callback env u up now) = map_option (trim env) (p_family_name up)"
  "avatar (update_existing_callback env u up now) = p_picture up"
  "lastLogin (update_existing_callback env u up now) = Some now"
  "provider (update_existing_callback env u up now) = provider u"
  by (simp_all add: update_existing_callback_def set_name_def set_firstName_def set_lastName_def
      Let_def)

lemma newUserData_mobile_fields:
  "googleId (newUserData_mobile env up prov now) = Some (p_id up)"
  "role (newUserData_mobile env up prov now) = Some ''customer''"
  "email (newUserData_mobile env up prov now) = map_option (\<lambda>e. toLowerCase env (trim env e)) (p_email up)"
  "isEmailVerified (newUserData_mobile env up prov now)"
  "isGoogleUser (newUserData_mobile env up prov now)"
  "name (newUserData_mobile env up prov now) = map_option (trim env) (p_name up)"
  "firstName (newUserData_mobile env up prov now) = map_option (trim env) (p_given_name up)"
  "lastName (newUserData_mobile env up prov now) = map_option (trim env) (p_family_name up)"
  "avatar (newUserData_mobile env up prov now) = p_picture up"
  "lastLogin (newUserData_mobile env up prov now) = Some now"
  "provider (newUserData_mobile env up prov now) = Some (toLowerCase env prov)"
  "password (newUserData_mobile env up prov now) = None"
  by (simp_all add: newUserData_mobile_def set_name_def set_firstName_def set_lastName_def
      set_email_def schema_defaults_def Let_def)

lemma newUserData_callback_fields:
  "googleId (newUserData_callback env up now) = Some (p_id up)"
  "role (newUserData_callback env up now) = Some ''customer''"
  "email (newUserData_callback env up now) = map_option (\<lambda>e. toLowerCase env (trim env e)) (p_email up)"
  "isEmailVerified (newUserData_callback env up now)"
  "isGoogleUser (newUserData_callback env up now)"
  "name (newUserData_callback env up now) = map_option (trim env) (p_name up)"
  "firstName (newUserData_callback env up now) = map_option (trim env) (p_given_name up)"
  "lastName (newUserData_callback env up now) = map_option (trim env) (p_family_name up)"
  "avatar (newUserData_callback env up now) = p_picture up"
  "lastLogin (newUserData_callback env up now) = Some now"
  "provider (newUserData_callback env up now) = None"
  "password (newUserData_callback env up now) = None"
  by (simp_all add: newUserData_callback_def set_name_def set_firstName_def set_lastName_def
      set_email_def schema_defaults_def Let_def)

lemma userProfile_of_fields:
  "p_id (userProfile_of payload) = the (sub payload)"
  "p_name (userProfile_of payload) = or_else (t_name payload) (t_email payload)"
  "p_given_name (userProfile_of payload) = t_given_name payload"
  "p_family_name (userProfile_of payload) = t_family_name payload"
  "p_picture (userProfile_of payload) = t_picture payload"
  "p_email (userProfile_of payload) = t_email payload"
  by (simp_all add: userProfile_of_def)

text \<open>What a successful save and a successful create return.\<close>

lemma User_save_Inr:
  assumes "User_save env s u now = Inr (u', s')"
  shows "u' = (pre_save env u)\<lparr>updatedAt := now\<rparr>"
    and "docs s' = replace_doc u' (docs s)"
    and "next_id s' = next_id s"
    and "validate_user env False u = []"
    and "list_ex (\<lambda>d. user_id d = user_id u) (docs s)"
  using assms
  by (auto simp add: User_save_def Let_def pre_save_fields split: list.splits if_splits)

lemma User_create_Inr:
  assumes "User_create env s d now = Inr (u', s')"
  shows "u' = pre_save env (d\<lparr>user_id := next_id s, createdAt := now, updatedAt := now\<rparr>)"
    and "docs s' = docs s @ [u']"
    and "next_id s' = Suc (next_id s)"
    and "validate_user env True (d\<lparr>user_id := next_id s, createdAt := now, updatedAt := now\<rparr>) = []"
    and "\<not> list_ex (\<lambda>x. email x = email u') (docs s)"
  using assms
  by (auto simp add: User_create_def Let_def split: list.splits if_splits)

lemma validate_user_Nil:
  assumes "validate_user env w d = []"
  shows "name_valid env d" and "email_valid env d" and "role_valid d" and "provider_valid d"
    and "firstName_valid env d" and "lastName_valid env d" and "avatar_valid env d"
    and "w \<Longrightarrow> password_valid env d"
  using assms by (auto simp add: validate_user_def split: if_splits)

lemma name_valid_truthy: "name_valid env d \<Longrightarrow> truthy (name d)"
  by (simp add: name_valid_def truthy_def split: option.splits)

text \<open>The document a successful create of the mobile flow stores.\<close>

lemma created_mobile_fields:
  assumes "User_create env s (newUserData_mobile env up prov now) now = Inr (u, s')"
  shows "user_id u = next_id s"
    and "googleId u = Some (p_id up)"
    and "email u = map_option (\<lambda>e. toLowerCase env (trim env e)) (p_email up)"
    and "provider u = Some (toLowerCase env prov)"
    and "isEmailVerified u"
    and "isGoogleUser u"
    and "role u = Some ''customer''"
    and "lastLogin u = Some now"
    and "name u = map_option (trim env) (p_name up)"
    and "firstName u = map_option (trim env) (p_given_name up)"
    and "lastName u = map_option (trim env) (p_family_name up)"
    and "avatar u = p_picture up"
proof -
  let ?d = "(newUserData_mobile env up prov now)\<lparr>user_id := next_id s, createdAt := now, updatedAt := now\<rparr>"
  have u: "u = pre_save env ?d"
    by (rule User_create_Inr(1) [OF assms])
  have "name_valid env ?d"
    using validate_user_Nil(1) [OF User_create_Inr(4) [OF assms]] .
  then have n: "truthy (name ?d)"
    by (rule name_valid_truthy)
  show "user_id u = next_id s" "googleId u = Some (p_id up)"
    "email u = map_option (\<lambda>e. toLowerCase env (trim env e)) (p_email up)"
    "provider u = Some (toLowerCase env prov)" "isEmailVerified u" "isGoogleUser u"
    "role u = Some ''customer''" "lastLogin u = Some now"
    "firstName u = map_option (trim env) (p_given_name up)"
    "lastName u = map_option (trim env) (p_family_name up)" "avatar u = p_picture up"
    by (simp_all add: u pre_save_fields newUserData_mobile_fields)
  show "name u = map_option (trim env) (p_name up)"
    using pre_save_fields(12) [OF n] by (simp add: u newUserData_mobile_fields)
qed

text \<open>The document a successful save of the mobile flow stores.\<close>

lemma saved_mobile_fields:
  assumes "User_save env s (update_existing_mobile env u0 up prov now) now = Inr (u, s')"
  shows "user_id u = user_id u0"
    and "name u = map_option (trim env) (p_name up)"
    and "firstName u = map_option (trim env) (p_given_name up)"
    and "lastName u = map_option (trim env) (p_family_name up)"
    and "avatar u = p_picture up"
    and "lastLogin u = Some now"
    and "email u = email u0"
    and "googleId u = googleId u0"
    and "provider u = (if truthy (provider u0) then provider u0 else Some (toLowerCase env prov))"
proof -
  let ?d = "update_existing_mobile env u0 up prov now"
  have u: "u = (pre_save env ?d)\<lparr>updatedAt := now\<rparr>"
    by (rule User_save_Inr(1) [OF assms])
  have "name_valid env ?d"
    using validate_user_Nil(1) [OF User_save_Inr(4) [OF assms]] .
  then have n: "truthy (name ?d)"
    by (rule name_valid_truthy)
  show "user_id u = user_id u0" "firstName u = map_option (trim env) (p_given_name up)"
    "lastName u = map_option (trim env) (p_family_name up)" "avatar u = p_picture up"
    "lastLogin u = Some now" "email u = email u0" "googleId u = googleId u0"
    "provider u = (if truthy (provider u0) then provider u0 else Some (toLowerCase env prov))"
    by (simp_all add: u pre_save_fields update_existing_mobile_fields)
  show "name u = map_option (trim env) (p_name up)"
    using pre_save_fields(12) [OF n] by (simp add: u update_existing_mobile_fields)
qed

text \<open>A create whose email is taken fails, whatever else the document holds.\<close>

lemma User_create_email_taken:
  assumes "list_ex (\<lambda>x. email x = email d) (docs s)"
  shows "\<exists>err. User_create env s d now = Inl err \<and>
           (validate_user env True (d\<lparr>user_id := next_id s, createdAt := now, updatedAt := now\<rparr>) = []
            \<longrightarrow> err = MongoServerError ''E11000 duplicate key error: email'') \<and>
           (validate_user env True (d\<lparr>user_id := next_id s, createdAt := now, updatedAt := now\<rparr>) \<noteq> []
            \<longrightarrow> err = ValidationError
                  (validate_user env True
                     (d\<lparr>user_id := next_id s, createdAt := now, updatedAt := now\<rparr>)))"
  using assms
  by (auto simp add: User_create_def Let_def pre_save_fields split: list.splits)

lemma mobile_catch_status: "status (mobile_catch e) = 400 \<or> status (mobile_catch e) = 500"
  by (simp add: mobile_catch_def)

lemma mobile_catch_not_200: "status (mobile_catch err) \<noteq> 200"
  by (simp add: mobile_catch_def)

lemma with_spec_tokens_fields:
  "Token_refresh (with_spec_tokens cfg env) = spec_Token_refresh cfg env"
  "Token_sign (with_spec_tokens cfg env) = spec_Token_sign cfg env"
  by (simp_all add: with_spec_tokens_def)

section \<open>Lists of documents\<close>

lemma find_Some_P: "find P ds = Some u \<Longrightarrow> P u \<and> u \<in> set ds"
  by (induction ds) (auto split: if_splits)

lemma find_snoc:
  "find P ds = None \<Longrightarrow> P u \<Longrightarrow> find P (ds @ [u]) = Some u"
  by (induction ds) (auto split: if_splits)

lemma find_filter:
  "find P ds = (case filter P ds of [] \<Rightarrow> None | x # xs \<Rightarrow> Some x)"
  by (induction ds) auto

lemma find_map_email:
  "find (\<lambda>u. googleId u = Some g) (map (\<lambda>x. x\<lparr>email := f x\<rparr>) ds)
     = map_option (\<lambda>x. x\<lparr>email := f x\<rparr>) (find (\<lambda>u. googleId u = Some g) ds)"
  by (induction ds) auto

text \<open>Replacing a document by its \<^verbatim>\<open>_id\<close> in a collection with unique ids.\<close>

lemma map_user_id_replace_doc: "map user_id (replace_doc u ds) = map user_id ds"
  by (induction ds) auto

lemma list_all_ids_replace_doc:
  "list_all (\<lambda>x. user_id x < n) (replace_doc u ds) = list_all (\<lambda>x. user_id x < n) ds"
  by (induction ds) auto

lemma find_replace_doc:
  "find P ds = Some u0 \<Longrightarrow> user_id u' = user_id u0 \<Longrightarrow> P u'
    \<Longrightarrow> find P (replace_doc u' ds) = Some u'"
  by (induction ds) (auto split: if_splits)

lemma keeps_standing_refl: "keeps_standing u u"
  by (simp add: keeps_standing_def)

lemma list_all2_replace_doc:
  assumes "distinct (map user_id ds)" and "u0 \<in> set ds" and "user_id u = user_id u0"
    and "R u0 u" and "\<And>d. R d d"
  shows "list_all2 R ds (replace_doc u ds)"
  using assms(1,2)
proof (induction ds)
  case Nil
  then show ?case by simp
next
  case (Cons d ds)
  show ?case
  proof (cases "user_id d = user_id u")
    case True
    have "d = u0"
    proof (rule ccontr)
      assume "d \<noteq> u0"
      with Cons.prems(2) have "u0 \<in> set ds" by auto
      then have "user_id u0 \<in> set (map user_id ds)" by simp
      with Cons.prems(1) True assms(3) show False by simp
    qed
    with True assms(4,5) show ?thesis
      by (simp add: list_all2_refl)
  next
    case False
    with Cons.prems(2) assms(3) have "u0 \<in> set ds" by auto
    with Cons.IH Cons.prems(1) False assms(5) show ?thesis by simp
  qed
qed

lemma filter_replace_doc:
  assumes "distinct (map user_id ds)" and "filter P ds = [u0]" and "user_id u = user_id u0"
    and "P u"
  shows "filter P (replace_doc u ds) = [u]"
  using assms(1,2)
proof (induction ds)
  case Nil
  then show ?case by simp
next
  case (Cons d ds)
  show ?case
  proof (cases "user_id d = user_id u")
    case True
    have "filter P ds = []"
    proof (cases "P d")
      case True
      with Cons.prems(2) show ?thesis by simp
    next
      case False
      with Cons.prems(2) have "filter P ds = [u0]" by simp
      then have "u0 \<in> set (filter P ds)" by simp
      then have "user_id u0 \<in> set (map user_id ds)" by simp
      with Cons.prems(1) True assms(3) show ?thesis by simp
    qed
    with True assms(4) show ?thesis by simp
  next
    case False
    have "\<not> P d"
    proof
      assume "P d"
      with Cons.prems(2) have "d = u0" by simp
      with False assms(3) show False by simp
    qed
    with Cons.IH Cons.prems False show ?thesis by simp
  qed
qed

lemma standing_members:
  assumes "list_all2 keeps_standing ds (take (length ds) ds')" and "u \<in> set ds"
  shows "\<exists>u' \<in> set ds'. keeps_standing u u'"
proof -
  from assms(2) obtain i where i: "i < length ds" and u: "ds ! i = u"
    by (auto simp add: in_set_conv_nth)
  have l: "length (take (length ds) ds') = length ds"
    using list_all2_lengthD [OF assms(1)] by simp
  then have i': "i < length ds'"
    using i by simp
  have "keeps_standing (ds ! i) (take (length ds) ds' ! i)"
    using assms(1) i by (rule list_all2_nthD)
  then have "keeps_standing u (ds' ! i)"
    using i u by simp
  moreover have "ds' ! i \<in> set ds'"
    using i' by simp
  ultimately show ?thesis by blast
qed

section \<open>The verification stages\<close>

text \<open>What the library's acceptance of a token means, and what the mobile flow makes of it.\<close>

lemma verifyIdToken_Inr:
  assumes "verifyIdToken env t auds = Inr (Some payload)"
  shows "length (split_dot t) = 3"
    and "json_of_base64 env (split_dot t ! 1) = JsonObject payload"
    and "google_certs_ok env t"
    and "\<exists>a. aud payload = Some a \<and> a \<in> set auds"
  using assms
  by (auto simp add: verifyIdToken_def split: list.splits decoded.splits if_splits option.splits)

lemma verify_google_verified:
  assumes "verifyIdToken env tokenId (allowedAudiences env (aud payload)) = Inr (Some payload)"
    and "truthy (sub payload)" and "truthy (t_email payload)"
  shows "verify_google env tokenId = Continue (userProfile_of payload)"
  using assms verifyIdToken_Inr(1,2) [OF assms(1)]
  by (simp add: verify_google_def decode_unverified_def extract_profile_def)

lemma verify_mobile_verified:
  assumes "body_tokenId b = Some tokenId" and "tokenId \<noteq> []"
    and "body_provider b = Some prov" and "prov \<noteq> []"
    and "toLowerCase env prov = ''google''"
    and "verifyIdToken env tokenId (allowedAudiences env (aud payload)) = Inr (Some payload)"
    and "truthy (sub payload)" and "truthy (t_email payload)"
  shows "verify_mobile env b = Continue (userProfile_of payload, prov)"
  using assms(1-5) verify_google_verified [OF assms(6-8)]
  by (simp add: verify_mobile_def supportedProviders_def)

section \<open>The reconciliation\<close>

text \<open>After a successful reconciliation, the lookup by the same Google id finds the account.\<close>

lemma reconcile_mobile_found:
  assumes "reconcile_mobile env s (User_findOne s (p_id up)) up prov now = Inr (u, s')"
  shows "User_findOne s' (p_id up) = Some u"
proof (cases "User_findOne s (p_id up)")
  case None
  with assms have c: "User_create env s (newUserData_mobile env up prov now) now = Inr (u, s')"
    by (simp add: reconcile_mobile_def)
  have "googleId u = Some (p_id up)"
    using User_create_Inr(1) [OF c] by (simp add: pre_save_fields newUserData_mobile_fields)
  then show ?thesis
    using None User_create_Inr(2) [OF c] by (simp add: User_findOne_def find_snoc)
next
  case (Some u0)
  with assms have c: "User_save env s (update_existing_mobile env u0 up prov now) now = Inr (u, s')"
    by (simp add: reconcile_mobile_def)
  have g0: "googleId u0 = Some (p_id up)"
    using Some find_Some_P [of "\<lambda>u. googleId u = Some (p_id up)" "docs s" u0]
    by (simp add: User_findOne_def)
  have "googleId u = Some (p_id up)" and "user_id u = user_id u0"
    using User_save_Inr(1) [OF c] g0
    by (simp_all add: pre_save_fields update_existing_mobile_fields)
  then show ?thesis
    using Some User_save_Inr(2) [OF c] by (simp add: User_findOne_def find_replace_doc)
qed

lemma reconcile_callback_found:
  assumes "reconcile_callback env s (User_findOne s (p_id up)) up now = Inr (u, s')"
  shows "User_findOne s' (p_id up) = Some u"
proof (cases "User_findOne s (p_id up)")
  case None
  with assms have c: "User_create env s (newUserData_callback env up now) now = Inr (u, s')"
    by (simp add: reconcile_callback_def)
  have "googleId u = Some (p_id up)"
    using User_create_Inr(1) [OF c] by (simp add: pre_save_fields newUserData_callback_fields)
  then show ?thesis
    using None User_create_Inr(2) [OF c] by (simp add: User_findOne_def find_snoc)
next
  case (Some u0)
  with assms have c: "User_save env s (update_existing_callback env u0 up now) now = Inr (u, s')"
    by (simp add: reconcile_callback_def)
  have g0: "googleId u0 = Some (p_id up)"
    using Some find_Some_P [of "\<lambda>u. googleId u = Some (p_id up)" "docs s" u0]
    by (simp add: User_findOne_def)
  have "googleId u = Some (p_id up)" and "user_id u = user_id u0"
    using User_save_Inr(1) [OF c] g0
    by (simp_all add: pre_save_fields update_existing_callback_fields)
  then show ?thesis
    using Some User_save_Inr(2) [OF c] by (simp add: User_findOne_def find_replace_doc)
qed

text \<open>A successful save and a successful create keep the invariant and every standing.\<close>

lemma User_save_standing:
  assumes "store_ok s" and "u0 \<in> set (docs s)"
    and "User_save env s d now = Inr (u, s')"
    and "user_id d = user_id u0" and "role d = role u0"
    and "isEmailVerified u0 \<Longrightarrow> isEmailVerified d"
  shows "store_ok s'" and "list_all2 keeps_standing (docs s) (docs s')"
proof -
  have u: "u = (pre_save env d)\<lparr>updatedAt := now\<rparr>" and ds: "docs s' = replace_doc u (docs s)"
    and n: "next_id s' = next_id s"
    using User_save_Inr(1-3) [OF assms(3)] by simp_all
  show "store_ok s'"
    using assms(1)
    by (simp add: store_ok_def ds n map_user_id_replace_doc list_all_ids_replace_doc)
  have "keeps_standing u0 u"
    using assms(4-6) by (simp add: keeps_standing_def u pre_save_fields)
  moreover have "user_id u = user_id u0"
    using assms(4) by (simp add: u pre_save_fields)
  ultimately show "list_all2 keeps_standing (docs s) (docs s')"
    using assms(1,2) by (simp add: ds store_ok_def list_all2_replace_doc keeps_standing_refl)
qed

lemma User_create_standing:
  assumes "store_ok s" and "User_create env s d now = Inr (u, s')"
  shows "store_ok s'" and "list_all2 keeps_standing (docs s) (take (length (docs s)) (docs s'))"
proof -
  have u: "user_id u = next_id s" and ds: "docs s' = docs s @ [u]"
    and n: "next_id s' = Suc (next_id s)"
    using User_create_Inr(1-3) [OF assms(2)] by (simp_all add: pre_save_fields)
  show "store_ok s'"
    using assms(1) by (auto simp add: store_ok_def ds n u list_all_iff)
  show "list_all2 keeps_standing (docs s) (take (length (docs s)) (docs s'))"
    by (simp add: ds list_all2_refl keeps_standing_refl)
qed

text \<open>The reconciliation keeps the invariant and every account's standing.\<close>

lemma reconcile_mobile_standing:
  assumes "store_ok s"
    and "reconcile_mobile env s (User_findOne s g) up prov now = Inr (u, s')"
  shows "store_ok s'"
    and "list_all2 keeps_standing (docs s) (take (length (docs s)) (docs s'))"
proof -
  have "store_ok s' \<and> list_all2 keeps_standing (docs s) (take (length (docs s)) (docs s'))"
  proof (cases "User_findOne s g")
    case None
    with assms(2) have "User_create env s (newUserData_mobile env up prov now) now = Inr (u, s')"
      by (simp add: reconcile_mobile_def)
    then show ?thesis
      using User_create_standing [OF assms(1)] by blast
  next
    case (Some u0)
    with assms(2) have c: "User_save env s (update_existing_mobile env u0 up prov now) now = Inr (u, s')"
      by (simp add: reconcile_mobile_def)
    have m: "u0 \<in> set (docs s)"
      using Some find_Some_P [of _ "docs s" u0] by (simp add: User_findOne_def)
    have k: "store_ok s'" "list_all2 keeps_standing (docs s) (docs s')"
      using User_save_standing [OF assms(1) m c]
      by (simp_all add: update_existing_mobile_fields)
    have "length (docs s') = length (docs s)"
      using list_all2_lengthD [OF k(2)] by simp
    with k show ?thesis by simp
  qed
  then show "store_ok s'"
    and "list_all2 keeps_standing (docs s) (take (length (docs s)) (docs s'))"
    by simp_all
qed

lemma reconcile_callback_standing:
  assumes "store_ok s"
    and "reconcile_callback env s (User_findOne s g) profile now = Inr (u, s')"
  shows "store_ok s'"
    and "list_all2 keeps_standing (docs s) (take (length (docs s)) (docs s'))"
proof -
  have "store_ok s' \<and> list_all2 keeps_standing (docs s) (take (length (docs s)) (docs s'))"
  proof (cases "User_findOne s g")
    case None
    with assms(2) have "User_create env s (newUserData_callback env profile now) now = Inr (u, s')"
      by (simp add: reconcile_callback_def)
    then show ?thesis
      using User_create_standing [OF assms(1)] by blast
  next
    case (Some u0)
    with assms(2) have c: "User_save env s (update_existing_callback env u0 profile now) now = Inr (u, s')"
      by (simp add: reconcile_callback_def)
    have m: "u0 \<in> set (docs s)"
      using Some find_Some_P [of _ "docs s" u0] by (simp add: User_findOne_def)
    have k: "store_ok s'" "list_all2 keeps_standing (docs s) (docs s')"
      using User_save_standing [OF assms(1) m c]
      by (simp_all add: update_existing_callback_fields)
    have "length (docs s') = length (docs s)"
      using list_all2_lengthD [OF k(2)] by simp
    with k show ?thesis by simp
  qed
  then show "store_ok s'"
    and "list_all2 keeps_standing (docs s) (take (length (docs s)) (docs s'))"
    by simp_all
qed

text \<open>A handler leaves the store as it was, or as its reconciliation wrote it.\<close>

lemma oAuthMobile_store:
  assumes "oAuthMobile env s b now = (r, s')"
  shows "s' = s \<or>
    (\<exists>up prov u. reconcile_mobile env s (User_findOne s (p_id up)) up prov now = Inr (u, s'))"
  using assms
  by (auto simp add: oAuthMobile_def oAuthMobile_resume_def
      split: step.splits sum.splits prod.splits)

lemma oauthCallback_store:
  assumes "oauthCallback env s b now = (r, s')"
  shows "s' = s \<or>
    (\<exists>profile u. reconcile_callback env s (User_findOne s (p_id profile)) profile now = Inr (u, s'))"
  using assms
  by (auto simp add: oauthCallback_def oauthCallback_resume_def
      split: step.splits sum.splits prod.splits)

text \<open>The accounts of a Google id after a successful reconciliation.\<close>

lemma User_findOne_accounts:
  "User_findOne s g = (case accounts_of s g of [] \<Rightarrow> None | x # xs \<Rightarrow> Some x)"
  by (simp add: User_findOne_def accounts_of_def find_filter)

lemma reconcile_mobile_accounts:
  assumes "store_ok s" and "length (accounts_of s (p_id up)) \<le> 1"
    and "reconcile_mobile env s (User_findOne s (p_id up)) up prov now = Inr (u, s')"
  shows "accounts_of s' (p_id up) = [u]"
proof (cases "User_findOne s (p_id up)")
  case None
  with assms(3) have c: "User_create env s (newUserData_mobile env up prov now) now = Inr (u, s')"
    by (simp add: reconcile_mobile_def)
  have "accounts_of s (p_id up) = []"
    using None by (simp add: User_findOne_accounts split: list.splits)
  then show ?thesis
    using created_mobile_fields(2) [OF c] User_create_Inr(2) [OF c]
    by (simp add: accounts_of_def)
next
  case (Some u0)
  with assms(3) have c: "User_save env s (update_existing_mobile env u0 up prov now) now = Inr (u, s')"
    by (simp add: reconcile_mobile_def)
  have a: "accounts_of s (p_id up) = [u0]"
    using Some assms(2) by (auto simp add: User_findOne_accounts split: list.splits)
  then have "u0 \<in> set (accounts_of s (p_id up))" by simp
  then have g0: "googleId u0 = Some (p_id up)"
    by (simp add: accounts_of_def)
  have "googleId u = Some (p_id up)" and "user_id u = user_id u0"
    using User_save_Inr(1) [OF c] g0
    by (simp_all add: pre_save_fields update_existing_mobile_fields)
  then show ?thesis
    using a assms(1) User_save_Inr(2) [OF c]
    by (simp add: accounts_of_def store_ok_def filter_replace_doc)
qed

section \<open>The examples, evaluated\<close>

lemma example_base_fields:
  "GOOGLE_CLIENT_ID example_base = Some ''client-123''"
  "GOOGLE_CLIENT_SECRET example_base = Some ''shh''"
  "FRONTEND_URL example_base = Some ''https://shop.example''"
  "JWT_ACCESS_SECRET example_base = None"
  "JWT_REFRESH_SECRET example_base = None"
  "trim example_base = ascii_trim"
  "toLowerCase example_base = ascii_toLowerCase"
  "str_length example_base = length"
  "google_verify_message example_base t = ''Invalid token signature: '' @ t"
  "google_token_endpoint example_base p =
     (if auth_code p = ''good-code'' then HttpOk (Some \<lparr>access_token = Some ''ya29.good''\<rparr>)
      else if auth_code p = ''no-token-code'' then HttpOk (Some \<lparr>access_token = None\<rparr>)
      else HttpError)"
  "google_userinfo example_base t =
     (if t = ''ya29.good'' then HttpOk (Some profile_bob) else HttpError)"
  "json_of_base64 example_base seg =
     (if seg = ''p999'' then JsonObject payload_999
      else if seg = ''palice'' then JsonObject payload_alice
      else if seg = ''ppadded'' then JsonObject payload_padded
      else if seg = ''pbadpic'' then JsonObject payload_badpic
      else NotJson)"
  "google_certs_ok example_base t
     = (t \<in> set [''h.p999.s'', ''h.palice.s'', ''h.ppadded.s'', ''h.pbadpic.s''])"
  "isEmail example_base e = (CHR ''@'' \<in> set e)"
  "isURL example_base v = starts_with v ''https://''"
  "Token_sign example_base now c = Inl (JsError ''Error'')"
  "Token_refresh example_base now t' = Inl (JsError ''Error'')"
  by (simp_all add: example_base_def)

lemma example_env_fields:
  "GOOGLE_CLIENT_ID example_env = Some ''client-123''"
  "GOOGLE_CLIENT_SECRET example_env = Some ''shh''"
  "FRONTEND_URL example_env = Some ''https://shop.example''"
  "JWT_ACCESS_SECRET example_env = None"
  "JWT_REFRESH_SECRET example_env = None"
  "trim example_env = ascii_trim"
  "toLowerCase example_env = ascii_toLowerCase"
  "str_length example_env = length"
  "google_verify_message example_env = google_verify_message example_base"
  "google_token_endpoint example_env = google_token_endpoint example_base"
  "google_userinfo example_env = google_userinfo example_base"
  "json_of_base64 example_env = json_of_base64 example_base"
  "google_certs_ok example_env = google_certs_ok example_base"
  "isEmail example_env = isEmail example_base"
  "isURL example_env = isURL example_base"
  "Token_sign example_env = spec_Token_sign example_config example_base"
  "Token_refresh example_env = spec_Token_refresh example_config example_base"
  by (simp_all add: example_env_def with_spec_tokens_def example_base_fields)

lemmas example_fields = example_env_fields example_base_fields failing_sign_env_def

text \<open>
  The three example tokens pass the mobile flow's verification, and the code "good-code"
  the browser flow's.
\<close>

lemma verify_mobile_999:
  "verify_mobile example_env \<lparr>body_tokenId = Some ''h.p999.s'', body_provider = Some ''google''\<rparr>
     = Continue (userProfile_of payload_999, ''google'')"
  by (simp add: verify_mobile_def verify_google_def decode_unverified_def verifyIdToken_def
      allowedAudiences_def extract_profile_def supportedProviders_def js_defs example_fields
      payload_defs)

lemma verify_mobile_alice:
  "verify_mobile example_env \<lparr>body_tokenId = Some ''h.palice.s'', body_provider = Some ''google''\<rparr>
     = Continue (userProfile_of payload_alice, ''google'')"
  by (simp add: verify_mobile_def verify_google_def decode_unverified_def verifyIdToken_def
      allowedAudiences_def extract_profile_def supportedProviders_def js_defs example_fields
      payload_defs)

lemma verify_mobile_alice_base:
  "verify_mobile example_base \<lparr>body_tokenId = Some ''h.palice.s'', body_provider = Some ''google''\<rparr>
     = Continue (userProfile_of payload_alice, ''google'')"
  by (simp add: verify_mobile_def verify_google_def decode_unverified_def verifyIdToken_def
      allowedAudiences_def extract_profile_def supportedProviders_def js_defs example_fields
      payload_defs)

lemma verify_mobile_padded:
  "verify_mobile example_env \<lparr>body_tokenId = Some ''h.ppadded.s'', body_provider = Some ''google''\<rparr>
     = Continue (userProfile_of payload_padded, ''google'')"
  by (simp add: verify_mobile_def verify_google_def decode_unverified_def verifyIdToken_def
      allowedAudiences_def extract_profile_def supportedProviders_def js_defs example_fields
      payload_defs)

lemma verify_mobile_badpic:
  "verify_mobile example_env \<lparr>body_tokenId = Some ''h.pbadpic.s'', body_provider = Some ''google''\<rparr>
     = Continue (userProfile_of payload_badpic, ''google'')"
  by (simp add: verify_mobile_def verify_google_def decode_unverified_def verifyIdToken_def
      allowedAudiences_def extract_profile_def supportedProviders_def js_defs example_fields
      payload_defs)

lemma verify_callback_good:
  "verify_callback example_base \<lparr>body_code = Some ''good-code''\<rparr> = Continue profile_bob"
  "verify_callback example_env \<lparr>body_code = Some ''good-code''\<rparr> = Continue profile_bob"
  by (simp_all add: verify_callback_def exchangeCodeForToken_def exchange_params_def
      getUserProfile_def js_defs example_fields)

text \<open>
  The reconciliations of the examples: the first login of Alice, a browser login of Bob
  into the linked account, the create of the second of two racing first logins, and a
  first browser login of Bob.
\<close>

lemma reconcile_alice:
  "reconcile_mobile example_base empty_store (User_findOne empty_store ''g123'')
     (userProfile_of payload_alice) ''google'' 1000
   = Inr (account_alice, \<lparr>docs = [account_alice], next_id = 1\<rparr>)"
  by (simp add: eval_defs schema_defs store_defs js_defs example_fields payload_defs
      account_alice_def)

lemma reconcile_linked:
  "reconcile_callback example_base linked_store (User_findOne linked_store ''g1'') profile_bob 1000
   = Inr (linked_account_bob, \<lparr>docs = [linked_account_bob], next_id = 1\<rparr>)"
  by (simp add: eval_defs schema_defs store_defs js_defs example_fields payload_defs
      linked_account_bob_def)

lemma reconcile_raced:
  "reconcile_mobile example_env store_g123 None (userProfile_of payload_999) ''google'' 2000
     = Inl (MongoServerError ''E11000 duplicate key error: email'')"
  by (simp add: eval_defs schema_defs store_defs js_defs example_fields payload_defs)

lemma reconcile_bob_taken:
  "User_create example_env bob_password_store (newUserData_callback example_env profile_bob 1000) 1000
     = Inl (ValidationError [''provider''])"
  by (simp add: eval_defs schema_defs store_defs js_defs example_fields payload_defs
      bob_password_store_def)

text \<open>Two logins of the examples: of the admin through the mobile flow, of Bob through the
  browser flow.\<close>

lemma login_admin:
  "oAuthMobile example_env admin_store
     \<lparr>body_tokenId = Some ''h.palice.s'', body_provider = Some ''google''\<rparr> 5000
     = (mobile_success account_admin_alice
          \<lparr>accessToken = sign_with ''k2y_acc3ss'' (login_payload account_admin_alice) 5000 900,
           refreshToken = sign_with ''k2y_refr3sh'' (login_payload account_admin_alice) 5000 86400\<rparr>,
        \<lparr>docs = [password_account\<lparr>user_id := 7\<rparr>, account_admin_alice], next_id = 8\<rparr>)"
  by (simp add: oAuthMobile_def verify_mobile_alice oAuthMobile_resume_def
      eval_defs schema_defs store_defs js_defs example_fields payload_defs spec_Token_sign_def
      key_access_def key_refresh_def example_config_def admin_store_def account_admin_def
      account_admin_alice_def)

lemma login_linked:
  "oauthCallback example_env linked_store \<lparr>body_code = Some ''good-code''\<rparr> 1000
     = (callback_success linked_account_bob
          \<lparr>accessToken = sign_with ''k2y_acc3ss'' (login_payload linked_account_bob) 1000 900,
           refreshToken = sign_with ''k2y_refr3sh'' (login_payload linked_account_bob) 1000 86400\<rparr>,
        \<lparr>docs = [linked_account_bob], next_id = 1\<rparr>)"
  by (simp add: oauthCallback_def verify_callback_good oauthCallback_resume_def
      eval_defs schema_defs store_defs js_defs example_fields payload_defs
      linked_account_bob_def spec_Token_sign_def key_access_def key_refresh_def
      example_config_def)

section \<open>The claims\<close>

subsection \<open>C1: a token issued to another client\<close>

text \<open>
  C1. A mobile login whose identity token names an audience that is not a configured client
  identifier should fail with "Audience mismatch" (401) and create no account. The
  handler adds the token's own \<^verbatim>\<open>aud\<close> to the audiences it lets the library accept
  ("Temporarily allow the token's audience for debugging"), so the token of the example
  issued to "client-999" is accepted under the configured "client-123": the response is
  200 with session tokens, and the account is created.
\<close>

theorem C1_foreign_audience_accepted:
  "aud payload_999 = Some ''client-999'' \<and>
   GOOGLE_CLIENT_ID example_env = Some ''client-123'' \<and>
   oAuthMobile example_env empty_store
     \<lparr>body_tokenId = Some ''h.p999.s'', body_provider = Some ''google''\<rparr> 1000
   = (mobile_success account_g123
        \<lparr>accessToken = sign_with ''k2y_acc3ss'' (login_payload account_g123) 1000 900,
         refreshToken = sign_with ''k2y_refr3sh'' (login_payload account_g123) 1000 86400\<rparr>,
      store_g123) \<and>
   status (fst (oAuthMobile example_env empty_store
     \<lparr>body_tokenId = Some ''h.p999.s'', body_provider = Some ''google''\<rparr> 1000)) = 200 \<and>
   docs store_g123 = [account_g123]"
  by (simp add: oAuthMobile_def verify_mobile_999 oAuthMobile_resume_def reconcile_mobile_def
      User_findOne_def User_create_def newUserData_mobile_def schema_defs userProfile_of_def
      store_defs spec_Token_sign_def key_access_def key_refresh_def example_config_def Let_def
      mobile_success_def js_defs example_fields payload_defs)

subsection \<open>C2: a failed code exchange\<close>

text \<open>
  C2, as stated, fails: the claim has a code exchange whose answer carries no
  \<^verbatim>\<open>access_token\<close> end in "Token exchange failed". In the example the exchange of
  "no-token-code" is answered by an object without that field; the handler goes on to
  the profile fetch with the access token \<^verbatim>\<open>undefined\<close>, Google rejects it, and the
  response is "Profile fetch failed".
\<close>

theorem C2_counterexample:
  "exchangeCodeForToken example_env ''no-token-code'' = Some \<lparr>access_token = None\<rparr> \<and>
   oauthCallback example_env empty_store \<lparr>body_code = Some ''no-token-code''\<rparr> 1000
     = (profile_fetch_failed, empty_store) \<and>
   profile_fetch_failed \<noteq> token_exchange_failed"
  by (simp add: oauthCallback_def verify_callback_def exchangeCodeForToken_def
      exchange_params_def getUserProfile_def js_defs example_fields
      profile_fetch_failed_def token_exchange_failed_def)

text \<open>
  C2, amended. When Google rejects the code exchange, or answers it with an empty body, the
  browser flow responds 400 "Token exchange failed" and the store is unchanged. When the
  answer is an object without \<^verbatim>\<open>access_token\<close>, the handler fetches the profile with the
  access token \<^verbatim>\<open>undefined\<close>; when Google rejects that fetch, the flow responds 400
  "Profile fetch failed" and the store is unchanged.
\<close>

theorem C2_exchange_failure:
  "(body_code b = Some code \<and> code \<noteq> [] \<and>
      (google_token_endpoint env (exchange_params env code) = HttpError \<or>
       google_token_endpoint env (exchange_params env code) = HttpOk None)
      \<longrightarrow> oauthCallback env s b now = (token_exchange_failed, s) \<and>
          status token_exchange_failed = 400) \<and>
   (body_code b = Some code \<and> code \<noteq> [] \<and>
      google_token_endpoint env (exchange_params env code) = HttpOk (Some tokenData) \<and>
      access_token tokenData = None \<and> google_userinfo env ''undefined'' = HttpError
      \<longrightarrow> oauthCallback env s b now = (profile_fetch_failed, s) \<and>
          status profile_fetch_failed = 400)"
  by (auto simp add: oauthCallback_def verify_callback_def exchangeCodeForToken_def
      getUserProfile_def js_str_def token_exchange_failed_def profile_fetch_failed_def)

theorem C2_exchange_failure_witness:
  "oauthCallback example_env password_store \<lparr>body_code = Some ''bad-code''\<rparr> 1000
     = (token_exchange_failed, password_store) \<and>
   oauthCallback example_env password_store \<lparr>body_code = Some ''no-token-code''\<rparr> 1000
     = (profile_fetch_failed, password_store)"
  using C2_exchange_failure [of "\<lparr>body_code = Some ''bad-code''\<rparr>" "''bad-code''" example_env
      password_store 1000 "\<lparr>access_token = None\<rparr>"]
    C2_exchange_failure [of "\<lparr>body_code = Some ''no-token-code''\<rparr>" "''no-token-code''"
      example_env password_store 1000 "\<lparr>access_token = None\<rparr>"]
  by (simp add: exchange_params_def example_fields)

subsection \<open>C3: the refresh route\<close>

text \<open>
  C3, as stated, fails on its second half: an expired refresh token does not end in a 401
  response. The refresh token issued at time 1000 with a lifetime of 86400 is presented
  at time 90000; \<^verbatim>\<open>Token.refresh\<close> fails with InvalidRefreshTokenError, and the handler's
  catch block throws it again instead of answering.
\<close>

theorem C3_counterexample:
  "spec_Token_sign example_config example_base 1000 (login_payload account_g123)
     = Inr \<lparr>accessToken = sign_with ''k2y_acc3ss'' (login_payload account_g123) 1000 900,
            refreshToken = sign_with ''k2y_refr3sh'' (login_payload account_g123) 1000 86400\<rparr> \<and>
   loginWithToken example_env 90000
     \<lparr>body_refreshToken =
        Some (sign_with ''k2y_refr3sh'' (login_payload account_g123) 1000 86400)\<rparr>
     = Unhandled InvalidRefreshTokenError"
  by (simp add: loginWithToken_def spec_Token_sign_def spec_Token_refresh_def sign_with_def
      key_access_def key_refresh_def example_config_def example_fields truthy_def)

text \<open>
  C3, amended. With the token plugin of the specification: a refresh token issued by
  \<^verbatim>\<open>Token.sign\<close> and presented before its expiry is answered 200 with a new access token
  for the same claims, which verifies to the same \<^verbatim>\<open>idUser\<close> until it expires. Every other
  token makes \<^verbatim>\<open>Token.refresh\<close> fail with InvalidRefreshTokenError, which the handler
  throws again without writing a response: the issued token at or after its expiry, and
  any token at or after the expiry it carries; the issued token with its payload, its
  issue time or its expiry changed under the old signature; any token whose signature is
  not the one the refresh secret gives for the token's own payload, issue time and
  expiry; and any non-empty string that is not a token. Whatever the token plugin does,
  the handler itself only ever answers 200 or 500.
\<close>

theorem C3_refresh:
  "(spec_Token_sign cfg env t0 c = Inr tk \<and> t1 < t0 + refresh_ttl cfg \<longrightarrow>
      loginWithToken (with_spec_tokens cfg env) t1 \<lparr>body_refreshToken = Some (refreshToken tk)\<rparr>
        = Responded \<lparr>status = 200,
            body = Refreshed
              \<lparr>r_accessToken = sign_with (key_access env) c t1 (access_ttl cfg),
               r_refreshToken =
                 (if rotate_refresh cfg
                  then Some (sign_with (key_refresh env) c t1 (refresh_ttl cfg)) else None)\<rparr>\<rparr> \<and>
      (t < t1 + access_ttl cfg \<longrightarrow>
         map_option idUser
           (jwt_verify (key_access env) t (sign_with (key_access env) c t1 (access_ttl cfg)))
         = Some (idUser c))) \<and>
   (spec_Token_sign cfg env t0 c = Inr tk \<and> t0 + refresh_ttl cfg \<le> t1 \<longrightarrow>
      loginWithToken (with_spec_tokens cfg env) t1 \<lparr>body_refreshToken = Some (refreshToken tk)\<rparr>
        = Unhandled InvalidRefreshTokenError) \<and>
   (ex' \<le> t1 \<longrightarrow>
      loginWithToken (with_spec_tokens cfg env) t1
        \<lparr>body_refreshToken = Some (Jwt c' iat' ex' m')\<rparr>
        = Unhandled InvalidRefreshTokenError) \<and>
   (spec_Token_sign cfg env t0 c = Inr tk \<and> refreshToken tk = Jwt c iat ex m \<and>
    (c', iat', ex') \<noteq> (c, iat, ex) \<longrightarrow>
      loginWithToken (with_spec_tokens cfg env) t1
        \<lparr>body_refreshToken = Some (Jwt c' iat' ex' m)\<rparr>
        = Unhandled InvalidRefreshTokenError) \<and>
   (m' \<noteq> MAC (key_refresh env) c' iat' ex' \<longrightarrow>
      loginWithToken (with_spec_tokens cfg env) t1
        \<lparr>body_refreshToken = Some (Jwt c' iat' ex' m')\<rparr>
        = Unhandled InvalidRefreshTokenError) \<and>
   (g \<noteq> [] \<longrightarrow>
      loginWithToken (with_spec_tokens cfg env) t1 \<lparr>body_refreshToken = Some (Garbage g)\<rparr>
        = Unhandled InvalidRefreshTokenError) \<and>
   (loginWithToken env' t1 b = Responded r \<longrightarrow> status r = 200 \<or> status r = 500)"
  by (auto simp add: loginWithToken_def with_spec_tokens_fields spec_Token_sign_def
      spec_Token_refresh_def sign_with_def split: option.splits if_splits sum.splits)

theorem C3_refresh_witness:
  "loginWithToken example_env 2000
     \<lparr>body_refreshToken =
        Some (sign_with ''k2y_refr3sh'' (login_payload account_g123) 1000 86400)\<rparr>
     = Responded \<lparr>status = 200,
         body = Refreshed
           \<lparr>r_accessToken = sign_with ''k2y_acc3ss'' (login_payload account_g123) 2000 900,
            r_refreshToken = None\<rparr>\<rparr> \<and>
   map_option idUser
     (jwt_verify ''k2y_acc3ss'' 2500
        (sign_with ''k2y_acc3ss'' (login_payload account_g123) 2000 900))
     = Some (idUser (login_payload account_g123)) \<and>
   loginWithToken example_env 87400
     \<lparr>body_refreshToken =
        Some (sign_with ''k2y_refr3sh'' (login_payload account_g123) 1000 86400)\<rparr>
     = Unhandled InvalidRefreshTokenError \<and>
   loginWithToken example_env 2000
     \<lparr>body_refreshToken =
        Some (Jwt ((login_payload account_g123)\<lparr>c_role := Some ''admin''\<rparr>) 1000 87400
                (MAC ''k2y_refr3sh'' (login_payload account_g123) 1000 87400))\<rparr>
     = Unhandled InvalidRefreshTokenError \<and>
   loginWithToken example_env 90000
     \<lparr>body_refreshToken =
        Some (Jwt (login_payload account_g123) 1000 999999
                (MAC ''k2y_refr3sh'' (login_payload account_g123) 1000 87400))\<rparr>
     = Unhandled InvalidRefreshTokenError \<and>
   loginWithToken example_env 2000
     \<lparr>body_refreshToken =
        Some (sign_with ''k2y_acc3ss'' (login_payload account_g123) 1000 86400)\<rparr>
     = Unhandled InvalidRefreshTokenError \<and>
   loginWithToken example_env 2000 \<lparr>body_refreshToken = Some (Garbage ''abc'')\<rparr>
     = Unhandled InvalidRefreshTokenError \<and>
   status \<lparr>status = 500, body = ErrorOnly ''Thieu thong tin''\<rparr> = 500"
proof -
  let ?c = "login_payload account_g123"
  let ?tk = "\<lparr>accessToken = sign_with ''k2y_acc3ss'' ?c 1000 900,
              refreshToken = sign_with ''k2y_refr3sh'' ?c 1000 86400\<rparr>"
  let ?m = "MAC ''k2y_refr3sh'' ?c 1000 87400"
  let ?b = "\<lparr>body_refreshToken = None\<rparr>"
  let ?r = "\<lparr>status = 500, body = ErrorOnly ''Thieu thong tin''\<rparr>"
  have s: "spec_Token_sign example_config example_base 1000 ?c = Inr ?tk"
    by (simp add: spec_Token_sign_def key_access_def key_refresh_def example_config_def
        example_fields truthy_def)
  have k: "key_access example_base = ''k2y_acc3ss''" "key_refresh example_base = ''k2y_refr3sh''"
    "refresh_ttl example_config = 86400" "access_ttl example_config = 900"
    "\<not> rotate_refresh example_config"
    by (simp_all add: key_access_def key_refresh_def example_config_def example_fields truthy_def)
  have r: "refreshToken ?tk = Jwt ?c 1000 87400 ?m"
    "sign_with ''k2y_acc3ss'' ?c 1000 86400 = Jwt ?c 1000 87400 (MAC ''k2y_acc3ss'' ?c 1000 87400)"
    by (simp_all add: sign_with_def)
  have d: "?c\<lparr>c_role := Some ''admin''\<rparr> \<noteq> ?c"
    by (simp add: login_payload_def account_g123_def schema_defaults_def)
  have e: "loginWithToken example_env 0 ?b = Responded ?r"
    by (simp add: loginWithToken_def)
  note valid = C3_refresh [where cfg = example_config and env = example_base and ?t0.0 = 1000
        and c = ?c and tk = ?tk and ?t1.0 = 2000 and t = 2500
        and iat = 1000 and ex = 87400 and m = ?m
        and c' = "?c\<lparr>c_role := Some ''admin''\<rparr>" and iat' = 1000 and ex' = 87400
        and m' = "MAC ''k2y_acc3ss'' ?c 1000 87400" and g = "''abc''"
        and env' = example_env and b = ?b and r = ?r]
  note expired = C3_refresh [where cfg = example_config and env = example_base and ?t0.0 = 1000
        and c = ?c and tk = ?tk and ?t1.0 = 87400 and t = 0
        and iat = 1000 and ex = 87400 and m = ?m
        and c' = ?c and iat' = 1000 and ex' = 87400 and m' = ?m and g = "''abc''"
        and env' = example_env and b = ?b and r = ?r]
  note stretched = C3_refresh [where cfg = example_config and env = example_base and ?t0.0 = 1000
        and c = ?c and tk = ?tk and ?t1.0 = 90000 and t = 0
        and iat = 1000 and ex = 87400 and m = ?m
        and c' = ?c and iat' = 1000 and ex' = 999999 and m' = ?m and g = "''abc''"
        and env' = example_env and b = ?b and r = ?r]
  note foreign = C3_refresh [where cfg = example_config and env = example_base and ?t0.0 = 1000
        and c = ?c and tk = ?tk and ?t1.0 = 2000 and t = 0
        and iat = 1000 and ex = 87400 and m = ?m
        and c' = ?c and iat' = 1000 and ex' = 87400
        and m' = "MAC ''k2y_acc3ss'' ?c 1000 87400" and g = "''abc''"
        and env' = example_env and b = ?b and r = ?r]
  show ?thesis
    using valid expired stretched foreign s k r d
    by (simp add: example_env_def)
qed

subsection \<open>C4: a duplicate-key error at the create\<close>

text \<open>
  C4, as stated, fails: a duplicate-key error at the create is not recovered. Two first
  logins of the Google account "g123" both look the account up in the empty store and
  find nothing; the first creates the account; the create of the second is refused by
  the unique index on \<^verbatim>\<open>email\<close>, and the handler answers 500 instead of returning the
  existing account.
\<close>

theorem C4_counterexample:
  "User_findOne empty_store (p_id (userProfile_of payload_999)) = None \<and>
   reconcile_mobile example_env store_g123 None (userProfile_of payload_999) ''google'' 2000
     = Inl (MongoServerError ''E11000 duplicate key error: email'') \<and>
   oAuthMobile_resume example_env store_g123 None (userProfile_of payload_999) ''google'' 2000
     = (\<lparr>status = 500,
         body = ErrorBody ''Internal server error''
                  ''An error occurred during OAuth mobile authentication''\<rparr>, store_g123)"
  by (simp add: oAuthMobile_resume_def mobile_catch_def reconcile_raced)
    (simp add: User_findOne_def store_defs)

text \<open>
  C4, amended. Whenever the create of a new account in the mobile flow fails with
  MongoDB's duplicate-key error, the handler does not recover: the error reaches the catch
  block and is answered 500 "Internal server error", and the store is left as it was.
  This holds when the lookup saw the same store as the create, and when another request
  wrote in between.
\<close>

theorem C4_duplicate_key_surfaced:
  assumes "User_create env s (newUserData_mobile env up prov now) now = Inl (MongoServerError k)"
  shows "reconcile_mobile env s None up prov now = Inl (MongoServerError k) \<and>
         oAuthMobile_resume env s None up prov now
           = (\<lparr>status = 500,
               body = ErrorBody ''Internal server error''
                        ''An error occurred during OAuth mobile authentication''\<rparr>, s) \<and>
         (verify_mobile env b = Continue (up, prov) \<and> User_findOne s (p_id up) = None
          \<longrightarrow> oAuthMobile env s b now
              = (\<lparr>status = 500,
                  body = ErrorBody ''Internal server error''
                           ''An error occurred during OAuth mobile authentication''\<rparr>, s))"
proof -
  have r: "reconcile_mobile env s None up prov now = Inl (MongoServerError k)"
    using assms by (simp add: reconcile_mobile_def)
  then have m: "oAuthMobile_resume env s None up prov now
           = (\<lparr>status = 500,
               body = ErrorBody ''Internal server error''
                        ''An error occurred during OAuth mobile authentication''\<rparr>, s)"
    by (simp add: oAuthMobile_resume_def mobile_catch_def)
  then show ?thesis
    using r by (simp add: oAuthMobile_def)
qed

theorem C4_duplicate_key_surfaced_witness:
  "oAuthMobile_resume example_env store_g123 None (userProfile_of payload_999) ''google'' 2000
     = (\<lparr>status = 500,
         body = ErrorBody ''Internal server error''
                  ''An error occurred during OAuth mobile authentication''\<rparr>, store_g123) \<and>
   oAuthMobile example_env password_store
     \<lparr>body_tokenId = Some ''h.palice.s'', body_provider = Some ''google''\<rparr> 1000
     = (\<lparr>status = 500,
         body = ErrorBody ''Internal server error''
                  ''An error occurred during OAuth mobile authentication''\<rparr>, password_store)"
proof -
  have c1: "User_create example_env store_g123
              (newUserData_mobile example_env (userProfile_of payload_999) ''google'' 2000) 2000
            = Inl (MongoServerError ''E11000 duplicate key error: email'')"
    using reconcile_raced by (simp add: reconcile_mobile_def)
  have c2: "User_create example_env password_store
              (newUserData_mobile example_env (userProfile_of payload_alice) ''google'' 1000) 1000
            = Inl (MongoServerError ''E11000 duplicate key error: email'')"
    by (simp add: eval_defs schema_defs store_defs js_defs example_fields payload_defs)
  have f: "User_findOne password_store (p_id (userProfile_of payload_alice)) = None"
    by (simp add: User_findOne_def userProfile_of_def store_defs schema_defaults_def
        payload_defs)
  show ?thesis
    using C4_duplicate_key_surfaced [OF c1]
      C4_duplicate_key_surfaced [OF c2,
        of "\<lparr>body_tokenId = Some ''h.palice.s'', body_provider = Some ''google''\<rparr>"]
      verify_mobile_alice f
    by simp
qed

subsection \<open>C5: the provider backfill\<close>

text \<open>
  C5. A successful login that finds an account without \<^verbatim>\<open>provider\<close> should set it from the
  login's provider, in either flow. The mobile flow does ("Ensure provider is set for
  existing users"); the browser flow has no such step. In the example the account linked
  to the Google id "g1" has no provider; the browser login with Bob's profile succeeds
  with status 200 and the stored account still has no provider. For the Google account
  from before provider tracking (\<^verbatim>\<open>isGoogleUser\<close> true), the browser login does not even
  succeed: the schema requires \<^verbatim>\<open>provider\<close> of a Google user, the save fails validation
  and the answer is 500.
\<close>

theorem C5_browser_flow_no_backfill:
  "User_findOne linked_store ''g1'' = Some linked_account \<and>
   provider linked_account = None \<and>
   oauthCallback example_env linked_store \<lparr>body_code = Some ''good-code''\<rparr> 1000
     = (callback_success linked_account_bob
          \<lparr>accessToken = sign_with ''k2y_acc3ss'' (login_payload linked_account_bob) 1000 900,
           refreshToken = sign_with ''k2y_refr3sh'' (login_payload linked_account_bob) 1000 86400\<rparr>,
        \<lparr>docs = [linked_account_bob], next_id = 1\<rparr>) \<and>
   status (fst (oauthCallback example_env linked_store \<lparr>body_code = Some ''good-code''\<rparr> 1000))
     = 200 \<and>
   provider linked_account_bob = None \<and>
   User_findOne legacy_store ''g1'' = Some legacy_account \<and>
   provider legacy_account = None \<and>
   oauthCallback example_env legacy_store \<lparr>body_code = Some ''good-code''\<rparr> 1000
     = (callback_catch (ValidationError [''provider'']), legacy_store) \<and>
   status (callback_catch (ValidationError [''provider''])) = 500"
  by (simp add: oauthCallback_def verify_callback_good oauthCallback_resume_def
      callback_success_def callback_catch_def eval_defs schema_defs store_defs js_defs
      example_fields payload_defs linked_account_bob_def spec_Token_sign_def key_access_def
      key_refresh_def example_config_def)

subsection \<open>C6: a signing failure after the account write\<close>

text \<open>
  C6. When \<^verbatim>\<open>Token.sign\<close> throws after the reconciliation has created or updated the
  account, in the mobile flow as in the browser flow, the handler answers with the error
  response of its catch block (status 500, or 400 in the mobile flow for an error named
  ValidationError), the store is the one the reconciliation wrote (nothing is rolled
  back), the account is in it, and a lookup by the same Google id, as a retried login
  makes it, finds that account.
\<close>

theorem C6_account_persists:
  "(verify_mobile env b = Continue (up, prov) \<and>
    reconcile_mobile env s (User_findOne s (p_id up)) up prov now = Inr (u, s') \<and>
    Token_sign env now (login_payload u) = Inl e
    \<longrightarrow> oAuthMobile env s b now = (mobile_catch e, s') \<and>
        (status (mobile_catch e) = 400 \<or> status (mobile_catch e) = 500) \<and>
        u \<in> set (docs s') \<and>
        User_findOne s' (p_id up) = Some u) \<and>
   (verify_callback env b' = Continue profile \<and>
    reconcile_callback env s (User_findOne s (p_id profile)) profile now = Inr (u, s') \<and>
    Token_sign env now (login_payload u) = Inl e
    \<longrightarrow> oauthCallback env s b' now = (callback_catch e, s') \<and>
        status (callback_catch e) = 500 \<and>
        u \<in> set (docs s') \<and>
        User_findOne s' (p_id profile) = Some u)"
proof (intro conjI impI)
  assume h: "verify_mobile env b = Continue (up, prov) \<and>
    reconcile_mobile env s (User_findOne s (p_id up)) up prov now = Inr (u, s') \<and>
    Token_sign env now (login_payload u) = Inl e"
  then show "oAuthMobile env s b now = (mobile_catch e, s')"
    by (simp add: oAuthMobile_def oAuthMobile_resume_def)
  show "status (mobile_catch e) = 400 \<or> status (mobile_catch e) = 500"
    by (rule mobile_catch_status)
  from h show f: "User_findOne s' (p_id up) = Some u"
    by (blast intro: reconcile_mobile_found)
  then show "u \<in> set (docs s')"
    using find_Some_P [of "\<lambda>u. googleId u = Some (p_id up)" "docs s'" u]
    by (simp add: User_findOne_def)
next
  assume h: "verify_callback env b' = Continue profile \<and>
    reconcile_callback env s (User_findOne s (p_id profile)) profile now = Inr (u, s') \<and>
    Token_sign env now (login_payload u) = Inl e"
  then show "oauthCallback env s b' now = (callback_catch e, s')"
    by (simp add: oauthCallback_def oauthCallback_resume_def)
  show "status (callback_catch e) = 500"
    by (simp add: callback_catch_def)
  from h show f: "User_findOne s' (p_id profile) = Some u"
    by (blast intro: reconcile_callback_found)
  then show "u \<in> set (docs s')"
    using find_Some_P [of "\<lambda>u. googleId u = Some (p_id profile)" "docs s'" u]
    by (simp add: User_findOne_def)
qed

theorem C6_account_persists_witness:
  "oAuthMobile failing_sign_env empty_store
     \<lparr>body_tokenId = Some ''h.palice.s'', body_provider = Some ''google''\<rparr> 1000
     = (mobile_catch (JsError ''Error''), \<lparr>docs = [account_alice], next_id = 1\<rparr>) \<and>
   status (mobile_catch (JsError ''Error'')) = 500 \<and>
   User_findOne \<lparr>docs = [account_alice], next_id = 1\<rparr> ''g123'' = Some account_alice \<and>
   oauthCallback failing_sign_env linked_store \<lparr>body_code = Some ''good-code''\<rparr> 1000
     = (callback_catch (JsError ''Error''), \<lparr>docs = [linked_account_bob], next_id = 1\<rparr>) \<and>
   User_findOne \<lparr>docs = [linked_account_bob], next_id = 1\<rparr> ''g1'' = Some linked_account_bob"
proof -
  have p: "p_id (userProfile_of payload_alice) = ''g123''" "p_id profile_bob = ''g1''"
    by (simp_all add: userProfile_of_def payload_defs)
  have t: "Token_sign example_base 1000 c = Inl (JsError ''Error'')" for c
    by (simp add: example_fields)
  show ?thesis
    using C6_account_persists [where env = example_base and s = empty_store and now = 1000
        and b = "\<lparr>body_tokenId = Some ''h.palice.s'', body_provider = Some ''google''\<rparr>"
        and up = "userProfile_of payload_alice" and prov = "''google''" and u = account_alice
        and s' = "\<lparr>docs = [account_alice], next_id = 1\<rparr>" and e = "JsError ''Error''"
        and b' = "\<lparr>body_code = Some ''bad''\<rparr>"]
      C6_account_persists [where env = example_base and s = linked_store and now = 1000
        and b' = "\<lparr>body_code = Some ''good-code''\<rparr>"
        and profile = profile_bob and u = linked_account_bob
        and s' = "\<lparr>docs = [linked_account_bob], next_id = 1\<rparr>" and e = "JsError ''Error''"
        and b = "\<lparr>body_tokenId = None, body_provider = None\<rparr>"]
      verify_mobile_alice_base verify_callback_good reconcile_alice reconcile_linked t p
    by (simp add: failing_sign_env_def mobile_catch_def)
qed

subsection \<open>C7: the first mobile login of a Google account\<close>

text \<open>
  C7, as stated, fails: not every first mobile login with \<^verbatim>\<open>sub\<close> and \<^verbatim>\<open>email\<close> creates an
  account. Alice's token verifies, no account has the Google id "g123", but the password
  account of the example already owns "a@b.com": the create is refused by the unique
  index on \<^verbatim>\<open>email\<close>, the answer is 500 and the store is unchanged.
\<close>

theorem C7_counterexample:
  "verify_mobile example_env
     \<lparr>body_tokenId = Some ''h.palice.s'', body_provider = Some ''google''\<rparr>
     = Continue (userProfile_of payload_alice, ''google'') \<and>
   User_findOne password_store (p_id (userProfile_of payload_alice)) = None \<and>
   oAuthMobile example_env password_store
     \<lparr>body_tokenId = Some ''h.palice.s'', body_provider = Some ''google''\<rparr> 1000
     = (\<lparr>status = 500,
         body = ErrorBody ''Internal server error''
                  ''An error occurred during OAuth mobile authentication''\<rparr>, password_store)"
  by (simp add: oAuthMobile_def verify_mobile_alice oAuthMobile_resume_def mobile_catch_def
      eval_defs schema_defs store_defs js_defs example_fields payload_defs)

text \<open>
  C7, amended. For every mobile login whose token the library accepts with a payload that
  contains \<^verbatim>\<open>sub\<close> and \<^verbatim>\<open>email\<close>, for which no account with that Google id exists, and
  whose new document the store accepts (it passes the schema's validation and its email
  is not taken): the account is appended to the store with a fresh \<^verbatim>\<open>_id\<close>, that Google
  id, the email as the schema's setters leave it (trimmed, then in lower case), provider
  "google", \<^verbatim>\<open>isGoogleUser\<close> and \<^verbatim>\<open>isEmailVerified\<close> true, role "customer", \<^verbatim>\<open>lastLogin\<close>
  the login time, the name the trimmed display name, or the trimmed email when the payload
  has no name, the first and last name trimmed and the picture as the payload gives them;
  when \<^verbatim>\<open>Token.sign\<close> succeeds on the payload of that account (its name, \<^verbatim>\<open>_id\<close> and
  role), the answer is 200 with the tokens it returned.
  \<open>trim\<close>, \<open>toLowerCase\<close> and the length the validation measures are JavaScript's, as
  the environment gives them.
\<close>

theorem C7_mobile_creates_account:
  assumes "body_tokenId b = Some tokenId" and "tokenId \<noteq> []"
    and "body_provider b = Some prov" and "prov \<noteq> []"
    and "toLowerCase env prov = ''google''"
    and "verifyIdToken env tokenId (allowedAudiences env (aud payload)) = Inr (Some payload)"
    and "truthy (sub payload)" and "truthy (t_email payload)"
    and "User_findOne s (the (sub payload)) = None"
    and "User_create env s (newUserData_mobile env (userProfile_of payload) prov now) now
           = Inr (u, s')"
    and "Token_sign env now (login_payload u) = Inr tk"
  shows "oAuthMobile env s b now = (mobile_success u tk, s') \<and>
         status (mobile_success u tk) = 200 \<and>
         body (mobile_success u tk)
           = LoginOk \<lparr>s_id = user_id u, s_name = name u, s_email = email u,
                       s_avatar = avatar u, s_role = role u, s_provider = provider u\<rparr> tk \<and>
         login_payload u = \<lparr>c_name = name u, idUser = user_id u, c_role = Some ''customer''\<rparr> \<and>
         docs s' = docs s @ [u] \<and>
         user_id u = next_id s \<and>
         googleId u = sub payload \<and>
         email u = map_option (\<lambda>e. toLowerCase env (trim env e)) (t_email payload) \<and>
         provider u = Some ''google'' \<and>
         isGoogleUser u \<and>
         isEmailVerified u \<and>
         role u = Some ''customer'' \<and>
         lastLogin u = Some now \<and>
         name u = map_option (trim env) (if truthy (t_name payload) then t_name payload
                                         else t_email payload) \<and>
         firstName u = map_option (trim env) (t_given_name payload) \<and>
         lastName u = map_option (trim env) (t_family_name payload) \<and>
         avatar u = t_picture payload"
proof -
  have v: "verify_mobile env b = Continue (userProfile_of payload, prov)"
    by (rule verify_mobile_verified [OF assms(1-8)])
  have "oAuthMobile env s b now = (mobile_success u tk, s')"
    using assms(9-11)
    by (simp add: oAuthMobile_def v oAuthMobile_resume_def reconcile_mobile_def
        userProfile_of_fields)
  moreover have "googleId u = sub payload"
    using created_mobile_fields(2) [OF assms(10)] assms(7)
    by (simp add: userProfile_of_fields truthy_def split: option.splits)
  ultimately show ?thesis
    using created_mobile_fields [OF assms(10)] User_create_Inr(2) [OF assms(10)] assms(5)
    by (simp add: mobile_success_def login_payload_def userProfile_of_fields or_else_def)
qed

theorem C7_mobile_creates_account_witness:
  "oAuthMobile example_env empty_store
     \<lparr>body_tokenId = Some ''h.palice.s'', body_provider = Some ''Google''\<rparr> 1000
     = (mobile_success account_alice
          \<lparr>accessToken = sign_with ''k2y_acc3ss'' (login_payload account_alice) 1000 900,
           refreshToken = sign_with ''k2y_refr3sh'' (login_payload account_alice) 1000 86400\<rparr>,
        \<lparr>docs = [account_alice], next_id = 1\<rparr>) \<and>
   googleId account_alice = Some ''g123'' \<and>
   email account_alice = Some ''a@b.com'' \<and>
   provider account_alice = Some ''google'' \<and>
   role account_alice = Some ''customer'' \<and>
   name account_alice = Some ''Alice'' \<and>
   firstName account_alice = Some ''Alice'' \<and>
   lastName account_alice = Some ''Doe'' \<and>
   avatar account_alice = Some ''https://img.example/alice.png'' \<and>
   oAuthMobile example_env empty_store
     \<lparr>body_tokenId = Some ''h.p999.s'', body_provider = Some ''google''\<rparr> 1000
     = (mobile_success account_g123
          \<lparr>accessToken = sign_with ''k2y_acc3ss'' (login_payload account_g123) 1000 900,
           refreshToken = sign_with ''k2y_refr3sh'' (login_payload account_g123) 1000 86400\<rparr>,
        store_g123) \<and>
   name account_g123 = Some ''a@b.com''"
proof -
  let ?tk = "\<lambda>u. \<lparr>accessToken = sign_with ''k2y_acc3ss'' (login_payload u) 1000 900,
                   refreshToken = sign_with ''k2y_refr3sh'' (login_payload u) 1000 86400\<rparr>"
  have l: "toLowerCase example_env ''Google'' = ''google''"
    "toLowerCase example_env ''google'' = ''google''"
    by (simp_all add: js_defs example_fields)
  have n: "''Google'' \<noteq> []" "''google'' \<noteq> []"
    by simp_all
  have v: "verifyIdToken example_env ''h.palice.s''
             (allowedAudiences example_env (aud payload_alice)) = Inr (Some payload_alice)"
    "verifyIdToken example_env ''h.p999.s''
             (allowedAudiences example_env (aud payload_999)) = Inr (Some payload_999)"
    by (simp_all add: verifyIdToken_def allowedAudiences_def js_defs example_fields payload_defs)
  have t: "truthy (sub payload_alice)" "truthy (t_email payload_alice)"
    "truthy (sub payload_999)" "truthy (t_email payload_999)"
    by (simp_all add: truthy_def payload_defs)
  have f: "User_findOne empty_store (the (sub payload_alice)) = None"
    "User_findOne empty_store (the (sub payload_999)) = None"
    by (simp_all add: User_findOne_def store_defs)
  have c: "User_create example_env empty_store
             (newUserData_mobile example_env (userProfile_of payload_alice) ''Google'' 1000) 1000
           = Inr (account_alice, \<lparr>docs = [account_alice], next_id = 1\<rparr>)"
    "User_create example_env empty_store
             (newUserData_mobile example_env (userProfile_of payload_999) ''google'' 1000) 1000
           = Inr (account_g123, store_g123)"
    by (simp_all add: eval_defs schema_defs store_defs js_defs example_fields payload_defs
        account_alice_def)
  have g: "Token_sign example_env 1000 (login_payload u) = Inr (?tk u)" for u
    by (simp add: example_fields spec_Token_sign_def key_access_def key_refresh_def
        example_config_def truthy_def)
  have a: "name account_g123 = Some ''a@b.com''"
    by (simp add: store_defs schema_defaults_def)
  show ?thesis
    using C7_mobile_creates_account [where env = example_env and s = empty_store and now = 1000
        and b = "\<lparr>body_tokenId = Some ''h.palice.s'', body_provider = Some ''Google''\<rparr>"
        and tokenId = "''h.palice.s''" and prov = "''Google''" and payload = payload_alice
        and u = account_alice and s' = "\<lparr>docs = [account_alice], next_id = 1\<rparr>"
        and tk = "?tk account_alice", OF _ _ _ n(1) l(1) v(1) t(1,2) f(1) c(1) g]
      C7_mobile_creates_account [where env = example_env and s = empty_store and now = 1000
        and b = "\<lparr>body_tokenId = Some ''h.p999.s'', body_provider = Some ''google''\<rparr>"
        and tokenId = "''h.p999.s''" and prov = "''google''" and payload = payload_999
        and u = account_g123 and s' = store_g123
        and tk = "?tk account_g123", OF _ _ _ n(2) l(2) v(2) t(3,4) f(2) c(2) g] a
    by (simp add: payload_defs js_defs example_fields)
qed

subsection \<open>C8: reconciling the same Google account twice\<close>

text \<open>
  C8, as stated, fails in its last part: the stored profile fields are not always the
  snapshot's values. The first login creates the account "g123"; the second login's token
  carries the display name " Alice D. " with a space at each end; the login succeeds, the
  schema trims \<^verbatim>\<open>name\<close>, and the stored name is "Alice D.".
\<close>

theorem C8_counterexample:
  "snd (oAuthMobile example_env empty_store
     \<lparr>body_tokenId = Some ''h.p999.s'', body_provider = Some ''google''\<rparr> 1000) = store_g123 \<and>
   p_name (userProfile_of payload_padded) = Some '' Alice D. '' \<and>
   status (fst (oAuthMobile example_env store_g123
     \<lparr>body_tokenId = Some ''h.ppadded.s'', body_provider = Some ''google''\<rparr> 3000)) = 200 \<and>
   map name (docs (snd (oAuthMobile example_env store_g123
     \<lparr>body_tokenId = Some ''h.ppadded.s'', body_provider = Some ''google''\<rparr> 3000)))
     = [Some ''Alice D.'']"
  by (simp add: oAuthMobile_def verify_mobile_999 verify_mobile_padded oAuthMobile_resume_def
      mobile_success_def eval_defs schema_defs store_defs js_defs example_fields payload_defs
      spec_Token_sign_def)

text \<open>
  C8, amended. In a store with unique ids that holds at most one account of a Google id,
  two successful reconciliations in a row with that Google id and two profile snapshots
  leave exactly one account of that Google id; its \<^verbatim>\<open>_id\<close> is the same after both calls;
  and after the second call its name, first name and last name are the second snapshot's
  values trimmed, its avatar is the second snapshot's picture and its \<^verbatim>\<open>lastLogin\<close> is the
  time of the second call.
\<close>

theorem C8_reconcile_twice:
  assumes "store_ok s0" and "length (accounts_of s0 g) \<le> 1"
    and "p_id up1 = g" and "p_id up2 = g"
    and "reconcile_mobile env1 s0 (User_findOne s0 g) up1 prov1 t1 = Inr (u1, s1)"
    and "reconcile_mobile env2 s1 (User_findOne s1 g) up2 prov2 t2 = Inr (u2, s2)"
  shows "accounts_of s1 g = [u1] \<and>
         accounts_of s2 g = [u2] \<and>
         user_id u2 = user_id u1 \<and>
         name u2 = map_option (trim env2) (p_name up2) \<and>
         firstName u2 = map_option (trim env2) (p_given_name up2) \<and>
         lastName u2 = map_option (trim env2) (p_family_name up2) \<and>
         avatar u2 = p_picture up2 \<and>
         lastLogin u2 = Some t2"
proof -
  have a1: "accounts_of s1 g = [u1]"
    using reconcile_mobile_accounts [of s0 up1 env1 prov1 t1 u1 s1] assms(1,2,3,5) by simp
  have ok1: "store_ok s1"
    using reconcile_mobile_standing(1) [OF assms(1,5)] .
  have f1: "User_findOne s1 g = Some u1"
    using a1 by (simp add: User_findOne_accounts)
  have a2: "accounts_of s2 g = [u2]"
    using reconcile_mobile_accounts [of s1 up2 env2 prov2 t2 u2 s2] assms(4,6) ok1 a1 by simp
  have c: "User_save env2 s1 (update_existing_mobile env2 u1 up2 prov2 t2) t2 = Inr (u2, s2)"
    using assms(6) f1 by (simp add: reconcile_mobile_def)
  show ?thesis
    using a1 a2 saved_mobile_fields(1-6) [OF c] by simp
qed

theorem C8_reconcile_twice_witness:
  "accounts_of store_g123 ''g123'' = [account_g123] \<and>
   accounts_of \<lparr>docs = [account_padded], next_id = 1\<rparr> ''g123'' = [account_padded] \<and>
   user_id account_padded = user_id account_g123 \<and>
   name account_padded = Some ''Alice D.'' \<and>
   firstName account_padded = Some ''Alice'' \<and>
   lastName account_padded = Some ''D.'' \<and>
   avatar account_padded = None \<and>
   lastLogin account_padded = Some 3000"
proof -
  have ok: "store_ok empty_store" and n: "length (accounts_of empty_store ''g123'') \<le> 1"
    by (simp_all add: store_ok_def accounts_of_def store_defs)
  have p: "p_id (userProfile_of payload_999) = ''g123''"
    "p_id (userProfile_of payload_padded) = ''g123''"
    by (simp_all add: userProfile_of_def payload_defs)
  have r1: "reconcile_mobile example_env empty_store (User_findOne empty_store ''g123'')
              (userProfile_of payload_999) ''google'' 1000 = Inr (account_g123, store_g123)"
    by (simp add: eval_defs schema_defs store_defs js_defs example_fields payload_defs)
  have r2: "reconcile_mobile example_env store_g123 (User_findOne store_g123 ''g123'')
              (userProfile_of payload_padded) ''google'' 3000
            = Inr (account_padded, \<lparr>docs = [account_padded], next_id = 1\<rparr>)"
    by (simp add: eval_defs schema_defs store_defs js_defs example_fields payload_defs
        account_padded_def)
  show ?thesis
    using C8_reconcile_twice [OF ok n p r1 r2]
    by (simp add: userProfile_of_def payload_defs js_defs example_fields)
qed

subsection \<open>C9: role and verification of existing accounts\<close>

text \<open>
  C9. A login through the mobile flow or the browser flow, whatever its outcome, keeps
  every account of the store: afterwards the store still holds an account with the same
  \<^verbatim>\<open>_id\<close> and the same role (an admin stays an admin), and when its email was verified
  before, it is verified after. The ids of the store stay unique, so that account is the
  same one.
\<close>

theorem C9_role_and_verification_kept:
  assumes "store_ok s"
  shows "(oAuthMobile env s b now = (r, s') \<longrightarrow>
           store_ok s' \<and>
           (\<forall>u \<in> set (docs s). \<exists>u' \<in> set (docs s').
              user_id u' = user_id u \<and> role u' = role u \<and>
              (isEmailVerified u \<longrightarrow> isEmailVerified u'))) \<and>
         (oauthCallback env s b' now = (r', s'') \<longrightarrow>
           store_ok s'' \<and>
           (\<forall>u \<in> set (docs s). \<exists>u' \<in> set (docs s'').
              user_id u' = user_id u \<and> role u' = role u \<and>
              (isEmailVerified u \<longrightarrow> isEmailVerified u')))"
proof (intro conjI impI)
  assume h: "oAuthMobile env s b now = (r, s')"
  have k: "store_ok s' \<and> list_all2 keeps_standing (docs s) (take (length (docs s)) (docs s'))"
    using oAuthMobile_store [OF h] assms reconcile_mobile_standing [OF assms]
    by (auto simp add: list_all2_refl keeps_standing_refl)
  then show "store_ok s'" by simp
  show "\<forall>u \<in> set (docs s). \<exists>u' \<in> set (docs s').
          user_id u' = user_id u \<and> role u' = role u \<and>
          (isEmailVerified u \<longrightarrow> isEmailVerified u')"
    using k standing_members [of "docs s" "docs s'"]
    by (simp add: keeps_standing_def)
next
  assume h: "oauthCallback env s b' now = (r', s'')"
  have k: "store_ok s'' \<and> list_all2 keeps_standing (docs s) (take (length (docs s)) (docs s''))"
    using oauthCallback_store [OF h] assms reconcile_callback_standing [OF assms]
    by (auto simp add: list_all2_refl keeps_standing_refl)
  then show "store_ok s''" by simp
  show "\<forall>u \<in> set (docs s). \<exists>u' \<in> set (docs s'').
          user_id u' = user_id u \<and> role u' = role u \<and>
          (isEmailVerified u \<longrightarrow> isEmailVerified u')"
    using k standing_members [of "docs s" "docs s''"]
    by (simp add: keeps_standing_def)
qed

theorem C9_role_and_verification_kept_witness:
  "store_ok admin_store \<and>
   role account_admin = Some ''admin'' \<and>
   oAuthMobile example_env admin_store
     \<lparr>body_tokenId = Some ''h.palice.s'', body_provider = Some ''google''\<rparr> 5000
     = (mobile_success account_admin_alice
          \<lparr>accessToken = sign_with ''k2y_acc3ss'' (login_payload account_admin_alice) 5000 900,
           refreshToken = sign_with ''k2y_refr3sh'' (login_payload account_admin_alice) 5000 86400\<rparr>,
        \<lparr>docs = [password_account\<lparr>user_id := 7\<rparr>, account_admin_alice], next_id = 8\<rparr>) \<and>
   (\<exists>u' \<in> set [password_account\<lparr>user_id := 7\<rparr>, account_admin_alice].
      user_id u' = 0 \<and> role u' = Some ''admin'' \<and> isEmailVerified u') \<and>
   store_ok linked_store \<and>
   oauthCallback example_env linked_store \<lparr>body_code = Some ''good-code''\<rparr> 1000
     = (callback_success linked_account_bob
          \<lparr>accessToken = sign_with ''k2y_acc3ss'' (login_payload linked_account_bob) 1000 900,
           refreshToken = sign_with ''k2y_refr3sh'' (login_payload linked_account_bob) 1000 86400\<rparr>,
        \<lparr>docs = [linked_account_bob], next_id = 1\<rparr>) \<and>
   (\<exists>u' \<in> set [linked_account_bob].
      user_id u' = 0 \<and> role u' = Some ''admin'' \<and> isEmailVerified u')"
proof -
  have ok: "store_ok admin_store" "store_ok linked_store"
    by (simp_all add: store_ok_def admin_store_def account_admin_def store_defs
        schema_defaults_def)
  have f: "user_id account_admin = 0" "role account_admin = Some ''admin''"
    "isEmailVerified account_admin" "user_id linked_account = 0"
    "role linked_account = Some ''admin''" "isEmailVerified linked_account"
    "role (password_account\<lparr>user_id := 7\<rparr>) = Some ''user''"
    by (simp_all add: account_admin_def store_defs schema_defaults_def)
  show ?thesis
    using C9_role_and_verification_kept [OF ok(1), where env = example_env and now = 5000
        and b = "\<lparr>body_tokenId = Some ''h.palice.s'', body_provider = Some ''google''\<rparr>"
        and b' = "\<lparr>body_code = None\<rparr>", THEN conjunct1, THEN mp, OF login_admin]
      C9_role_and_verification_kept [OF ok(2), where env = example_env and now = 1000
        and b = "\<lparr>body_tokenId = None, body_provider = None\<rparr>"
        and b' = "\<lparr>body_code = Some ''good-code''\<rparr>", THEN conjunct2, THEN mp,
        OF login_linked]
      ok f login_admin login_linked
    by (simp add: admin_store_def linked_store_def)
qed

subsection \<open>C10: a first OAuth login whose email is taken\<close>

text \<open>
  C10, as stated, fails in one detail: it is not always the unique email constraint that
  refuses the second account. The password account of the example owns "a@b.com"; a first
  mobile login for the Google account "g123" carries that email and a picture that is not
  a URL. The lookup by Google id finds nothing, the create is attempted, and the schema's
  validation refuses the document before the insert reaches the index: the answer is 400
  "Validation error", and the store is unchanged.
\<close>

theorem C10_counterexample:
  "verify_mobile example_env
     \<lparr>body_tokenId = Some ''h.pbadpic.s'', body_provider = Some ''google''\<rparr>
     = Continue (userProfile_of payload_badpic, ''google'') \<and>
   User_findOne password_store (p_id (userProfile_of payload_badpic)) = None \<and>
   list_ex (\<lambda>x. email x = p_email (userProfile_of payload_badpic)) (docs password_store) \<and>
   User_create example_env password_store
     (newUserData_mobile example_env (userProfile_of payload_badpic) ''google'' 1000) 1000
     = Inl (ValidationError [''avatar'']) \<and>
   oAuthMobile example_env password_store
     \<lparr>body_tokenId = Some ''h.pbadpic.s'', body_provider = Some ''google''\<rparr> 1000
     = (\<lparr>status = 400,
         body = ValidationFailed ''Validation error'' ''User data validation failed''
                  [''avatar'']\<rparr>, password_store)"
proof -
  note v = verify_mobile_badpic
  have f: "User_findOne password_store (p_id (userProfile_of payload_badpic)) = None"
    by (simp add: User_findOne_def userProfile_of_def store_defs schema_defaults_def
        payload_defs)
  have t: "list_ex (\<lambda>x. email x = p_email (userProfile_of payload_badpic))
             (docs password_store)"
    by (simp add: userProfile_of_def store_defs schema_defaults_def payload_defs)
  have c: "User_create example_env password_store
     (newUserData_mobile example_env (userProfile_of payload_badpic) ''google'' 1000) 1000
     = Inl (ValidationError [''avatar''])"
    by (simp add: eval_defs schema_defs store_defs js_defs example_fields payload_defs)
  have r: "oAuthMobile example_env password_store
     \<lparr>body_tokenId = Some ''h.pbadpic.s'', body_provider = Some ''google''\<rparr> 1000
     = (\<lparr>status = 400,
         body = ValidationFailed ''Validation error'' ''User data validation failed''
                  [''avatar'']\<rparr>, password_store)"
    by (simp add: oAuthMobile_def v f oAuthMobile_resume_def reconcile_mobile_def c
        mobile_catch_def)
  show ?thesis
    by (intro conjI v f t c r)
qed

text \<open>
  C10, amended. The lookup is by \<^verbatim>\<open>googleId\<close> alone: changing the emails of the stored
  documents changes nothing about which document it finds. A first login through the
  mobile flow (no account has its Google id) whose email, as the schema's setters leave it
  (trimmed, then in lower case), is the email of an existing account is not linked to that
  account: the create of a second account is attempted and fails. When the new document
  passes the schema's validation, it is the unique email constraint that refuses it, and
  the answer is 500; otherwise the validation refuses it, with the paths that failed, and
  the answer is 400. In both cases the login does not succeed and the store is unchanged.
\<close>

theorem C10_email_collision_rejected:
  "(verify_mobile env b = Continue (up, prov) \<and> User_findOne s (p_id up) = None \<and>
    p_email up = Some e \<and>
    list_ex (\<lambda>x. email x = Some (toLowerCase env (trim env e))) (docs s)
    \<longrightarrow> (\<exists>err. User_create env s (newUserData_mobile env up prov now) now = Inl err \<and>
            oAuthMobile env s b now = (mobile_catch err, s) \<and>
            status (mobile_catch err) \<noteq> 200 \<and>
            (validate_user env True
               ((newUserData_mobile env up prov now)
                  \<lparr>user_id := next_id s, createdAt := now, updatedAt := now\<rparr>) = []
             \<longrightarrow> err = MongoServerError ''E11000 duplicate key error: email'' \<and>
                 status (mobile_catch err) = 500) \<and>
            (validate_user env True
               ((newUserData_mobile env up prov now)
                  \<lparr>user_id := next_id s, createdAt := now, updatedAt := now\<rparr>) \<noteq> []
             \<longrightarrow> err = ValidationError (validate_user env True
                          ((newUserData_mobile env up prov now)
                             \<lparr>user_id := next_id s, createdAt := now, updatedAt := now\<rparr>)) \<and>
                 status (mobile_catch err) = 400))) \<and>
   User_findOne (s\<lparr>docs := map (\<lambda>x. x\<lparr>email := f x\<rparr>) (docs s)\<rparr>) g
     = map_option (\<lambda>x. x\<lparr>email := f x\<rparr>) (User_findOne s g)"
proof (intro conjI impI)
  assume h: "verify_mobile env b = Continue (up, prov) \<and> User_findOne s (p_id up) = None \<and>
    p_email up = Some e \<and>
    list_ex (\<lambda>x. email x = Some (toLowerCase env (trim env e))) (docs s)"
  let ?d = "newUserData_mobile env up prov now"
  let ?v = "validate_user env True (?d\<lparr>user_id := next_id s, createdAt := now, updatedAt := now\<rparr>)"
  have "list_ex (\<lambda>x. email x = email ?d) (docs s)"
    using h by (simp add: newUserData_mobile_fields)
  from User_create_email_taken [OF this, of env now]
  obtain err where c: "User_create env s ?d now = Inl err"
    and v: "?v = [] \<longrightarrow> err = MongoServerError ''E11000 duplicate key error: email''"
    and w: "?v \<noteq> [] \<longrightarrow> err = ValidationError ?v"
    by blast
  have "oAuthMobile env s b now = (mobile_catch err, s)"
    using h c by (simp add: oAuthMobile_def oAuthMobile_resume_def reconcile_mobile_def)
  moreover have "status (mobile_catch (MongoServerError ''E11000 duplicate key error: email'')) = 500"
    and "status (mobile_catch (ValidationError ?v)) = 400"
    by (simp_all add: mobile_catch_def)
  ultimately show "\<exists>err. User_create env s ?d now = Inl err \<and>
            oAuthMobile env s b now = (mobile_catch err, s) \<and>
            status (mobile_catch err) \<noteq> 200 \<and>
            (?v = [] \<longrightarrow> err = MongoServerError ''E11000 duplicate key error: email'' \<and>
                 status (mobile_catch err) = 500) \<and>
            (?v \<noteq> [] \<longrightarrow> err = ValidationError ?v \<and> status (mobile_catch err) = 400)"
    using c v w mobile_catch_not_200 [of err] by auto
next
  show "User_findOne (s\<lparr>docs := map (\<lambda>x. x\<lparr>email := f x\<rparr>) (docs s)\<rparr>) g
     = map_option (\<lambda>x. x\<lparr>email := f x\<rparr>) (User_findOne s g)"
    by (simp add: User_findOne_def find_map_email)
qed

theorem C10_email_collision_rejected_witness:
  "oAuthMobile example_env password_store
     \<lparr>body_tokenId = Some ''h.palice.s'', body_provider = Some ''google''\<rparr> 1000
     = (mobile_catch (MongoServerError ''E11000 duplicate key error: email''), password_store) \<and>
   status (mobile_catch (MongoServerError ''E11000 duplicate key error: email'')) = 500 \<and>
   oAuthMobile example_env password_store
     \<lparr>body_tokenId = Some ''h.pbadpic.s'', body_provider = Some ''google''\<rparr> 1000
     = (mobile_catch (ValidationError [''avatar'']), password_store) \<and>
   status (mobile_catch (ValidationError [''avatar''])) = 400"
proof -
  let ?up = "userProfile_of payload_alice"
  let ?uq = "userProfile_of payload_badpic"
  let ?M = "MongoServerError ''E11000 duplicate key error: email''"
  have m1: "User_findOne password_store (p_id ?up) = None"
    and m2: "p_email ?up = Some ''a@b.com''"
    and m3: "list_ex (\<lambda>x. email x = Some (toLowerCase example_env (trim example_env ''a@b.com'')))
               (docs password_store)"
    and m4: "validate_user example_env True
               ((newUserData_mobile example_env ?up ''google'' 1000)
                  \<lparr>user_id := next_id password_store, createdAt := 1000, updatedAt := 1000\<rparr>) = []"
    by (simp_all add: eval_defs schema_defs store_defs js_defs example_fields payload_defs)
  have n1: "User_findOne password_store (p_id ?uq) = None"
    and n2: "p_email ?uq = Some ''a@b.com''"
    and n4: "validate_user example_env True
               ((newUserData_mobile example_env ?uq ''google'' 1000)
                  \<lparr>user_id := next_id password_store, createdAt := 1000, updatedAt := 1000\<rparr>)
             = [''avatar'']"
    by (simp_all add: eval_defs schema_defs store_defs js_defs example_fields payload_defs)
  from C10_email_collision_rejected [where env = example_env and s = password_store
      and now = 1000 and up = ?up and prov = "''google''" and e = "''a@b.com''"
      and b = "\<lparr>body_tokenId = Some ''h.palice.s'', body_provider = Some ''google''\<rparr>",
      THEN conjunct1, THEN mp, OF conjI [OF verify_mobile_alice conjI [OF m1 conjI [OF m2 m3]]]]
  obtain err where
    "oAuthMobile example_env password_store
       \<lparr>body_tokenId = Some ''h.palice.s'', body_provider = Some ''google''\<rparr> 1000
     = (mobile_catch err, password_store)"
    and "err = ?M \<and> status (mobile_catch err) = 500"
    using m4 by auto
  then have taken: "oAuthMobile example_env password_store
       \<lparr>body_tokenId = Some ''h.palice.s'', body_provider = Some ''google''\<rparr> 1000
     = (mobile_catch ?M, password_store)" "status (mobile_catch ?M) = 500"
    by auto
  from C10_email_collision_rejected [where env = example_env and s = password_store
      and now = 1000 and up = ?uq and prov = "''google''" and e = "''a@b.com''"
      and b = "\<lparr>body_tokenId = Some ''h.pbadpic.s'', body_provider = Some ''google''\<rparr>",
      THEN conjunct1, THEN mp, OF conjI [OF verify_mobile_badpic conjI [OF n1 conjI [OF n2 m3]]]]
  obtain err where
    "oAuthMobile example_env password_store
       \<lparr>body_tokenId = Some ''h.pbadpic.s'', body_provider = Some ''google''\<rparr> 1000
     = (mobile_catch err, password_store)"
    and "err = ValidationError [''avatar''] \<and> status (mobile_catch err) = 400"
    using n4 by auto
  then have invalid: "oAuthMobile example_env password_store
       \<lparr>body_tokenId = Some ''h.pbadpic.s'', body_provider = Some ''google''\<rparr> 1000
     = (mobile_catch (ValidationError [''avatar'']), password_store)"
    "status (mobile_catch (ValidationError [''avatar''])) = 400"
    by auto
  show ?thesis
    by (intro conjI taken invalid)
qed

section \<open>Further properties of the handlers\<close>

text \<open>
  The audience check of the mobile flow cannot fail for a token that names an audience:
  whatever the configured client id, a token with three segments, an object payload with
  an \<^verbatim>\<open>aud\<close> and a signature that Google's certificates accept passes the verification,
  and the handler goes on with its payload.
\<close>

theorem audience_check_is_vacuous:
  assumes "length (split_dot tokenId) = 3"
    and "json_of_base64 env (split_dot tokenId ! 1) = JsonObject payload"
    and "truthy (aud payload)" and "google_certs_ok env tokenId"
  shows "verify_google env tokenId = extract_profile (Some payload)"
proof -
  from assms(1) obtain h p sg where s: "split_dot tokenId = [h, p, sg]"
    by (auto simp add: numeral_3_eq_3 length_Suc_conv)
  with assms(2) have p: "json_of_base64 env p = JsonObject payload" by simp
  from assms(3) obtain a where a: "aud payload = Some a" "a \<noteq> []"
    by (auto simp add: truthy_def split: option.splits)
  then have "a \<in> set (allowedAudiences env (aud payload))"
    by (simp add: allowedAudiences_def truthy_def)
  then have "verifyIdToken env tokenId (allowedAudiences env (aud payload)) = Inr (Some payload)"
    using s p a assms(4) by (simp add: verifyIdToken_def)
  then show ?thesis
    using assms(1,2) by (simp add: verify_google_def decode_unverified_def)
qed

theorem audience_check_is_vacuous_witness:
  "verify_google example_env ''h.p999.s'' = extract_profile (Some payload_999) \<and>
   aud payload_999 = Some ''client-999'' \<and>
   GOOGLE_CLIENT_ID example_env = Some ''client-123''"
proof -
  have "length (split_dot ''h.p999.s'') = 3"
    and "json_of_base64 example_env (split_dot ''h.p999.s'' ! 1) = JsonObject payload_999"
    and "truthy (aud payload_999)" and "google_certs_ok example_env ''h.p999.s''"
    by (simp_all add: js_defs example_fields payload_defs)
  from audience_check_is_vacuous [OF this] show ?thesis
    by (simp add: example_fields payload_defs)
qed

text \<open>
  The mobile flow's update of an existing account is the browser flow's update, followed,
  when the account has no provider, by the assignment of the lower-cased provider of the
  request: the backfill alters no other field.
\<close>

theorem mobile_backfill_only_provider:
  "update_existing_mobile env u userProfile prov now =
     (if truthy (provider u) then update_existing_callback env u userProfile now
      else (update_existing_callback env u userProfile now)\<lparr>provider := Some (toLowerCase env prov)\<rparr>)"
  by (simp add: update_existing_mobile_def update_existing_callback_def Let_def set_name_def
      set_firstName_def set_lastName_def)

theorem mobile_backfill_only_provider_witness:
  "update_existing_mobile example_env legacy_account (userProfile_of payload_alice) ''Google'' 5000
     = (update_existing_callback example_env legacy_account (userProfile_of payload_alice) 5000)
         \<lparr>provider := Some ''google''\<rparr>"
  using mobile_backfill_only_provider [of example_env legacy_account
      "userProfile_of payload_alice" "''Google''" 5000]
  by (simp add: store_defs schema_defaults_def js_defs example_fields)

text \<open>
  After a successful mobile login that found an account without provider, the account
  found under the same Google id is that account, with the provider "google" and with its
  email, role and Google id as before.
\<close>

theorem mobile_backfill_stored:
  assumes "verify_mobile env b = Continue (up, prov)"
    and "User_findOne s (p_id up) = Some u0" and "\<not> truthy (provider u0)"
    and "oAuthMobile env s b now = (r, s')" and "status r = 200"
  shows "\<exists>u. User_findOne s' (p_id up) = Some u \<and> user_id u = user_id u0 \<and>
             provider u = Some ''google'' \<and> email u = email u0 \<and> role u = role u0 \<and>
             googleId u = googleId u0"
proof -
  have r: "oAuthMobile_resume env s (Some u0) up prov now = (r, s')"
    using assms(1,2,4) by (simp add: oAuthMobile_def)
  have "\<exists>u. User_save env s (update_existing_mobile env u0 up prov now) now = Inr (u, s')"
  proof (cases "User_save env s (update_existing_mobile env u0 up prov now) now")
    case (Inl e)
    with r assms(5) mobile_catch_not_200 [of e] show ?thesis
      by (auto simp add: oAuthMobile_resume_def reconcile_mobile_def)
  next
    case (Inr us)
    note saved = Inr
    obtain u s1 where us: "us = (u, s1)" by (cases us)
    show ?thesis
    proof (cases "Token_sign env now (login_payload u)")
      case (Inl e)
      with r assms(5) mobile_catch_not_200 [of e] saved us show ?thesis
        by (auto simp add: oAuthMobile_resume_def reconcile_mobile_def)
    next
      case (Inr tk)
      with r saved us show ?thesis
        by (auto simp add: oAuthMobile_resume_def reconcile_mobile_def)
    qed
  qed
  then obtain u where
    c: "User_save env s (update_existing_mobile env u0 up prov now) now = Inr (u, s')"
    by blast
  then have "reconcile_mobile env s (User_findOne s (p_id up)) up prov now = Inr (u, s')"
    using assms(2) by (simp add: reconcile_mobile_def)
  then have f: "User_findOne s' (p_id up) = Some u"
    by (rule reconcile_mobile_found)
  have g: "toLowerCase env prov = ''google''"
    using assms(1)
    by (auto simp add: verify_mobile_def supportedProviders_def
        split: option.splits if_splits step.splits)
  have "role u = role u0"
    using User_save_Inr(1) [OF c] by (simp add: pre_save_fields update_existing_mobile_fields)
  then show ?thesis
    using f g saved_mobile_fields [OF c] assms(3) by simp
qed

theorem mobile_backfill_stored_witness:
  "\<exists>u. User_findOne \<lparr>docs = [legacy_account_alice], next_id = 1\<rparr> ''g123'' = Some u \<and>
        user_id u = 0 \<and> provider u = Some ''google'' \<and> role u = Some ''admin''"
proof -
  have v: "p_id (userProfile_of payload_alice) = ''g123''"
    by (simp add: userProfile_of_def payload_defs)
  have f: "User_findOne legacy_store_g123 ''g123'' = Some (legacy_account\<lparr>googleId := Some ''g123''\<rparr>)"
    by (simp add: User_findOne_def legacy_store_g123_def store_defs schema_defaults_def)
  have p: "\<not> truthy (provider (legacy_account\<lparr>googleId := Some ''g123''\<rparr>))"
    by (simp add: truthy_def store_defs schema_defaults_def)
  have l: "oAuthMobile example_env legacy_store_g123
     \<lparr>body_tokenId = Some ''h.palice.s'', body_provider = Some ''google''\<rparr> 5000
     = (mobile_success legacy_account_alice
          \<lparr>accessToken = sign_with ''k2y_acc3ss'' (login_payload legacy_account_alice) 5000 900,
           refreshToken = sign_with ''k2y_refr3sh'' (login_payload legacy_account_alice) 5000 86400\<rparr>,
        \<lparr>docs = [legacy_account_alice], next_id = 1\<rparr>)"
    by (simp add: oAuthMobile_def verify_mobile_alice oAuthMobile_resume_def
      eval_defs schema_defs store_defs js_defs example_fields payload_defs spec_Token_sign_def
      key_access_def key_refresh_def example_config_def legacy_store_g123_def
      legacy_account_alice_def)
  have s: "status (mobile_success legacy_account_alice tk) = 200" for tk
    by (simp add: mobile_success_def)
  from mobile_backfill_stored [OF verify_mobile_alice, unfolded v, OF f p l s]
  show ?thesis
    by (auto simp add: store_defs schema_defaults_def)
qed

text \<open>
  Missing input ends the request before any call to Google: the answer does not depend on
  the environment, and the store is unchanged.
\<close>

theorem missing_input_short_circuits:
  "(\<not> truthy (body_tokenId b) \<longrightarrow> oAuthMobile env s b now = (missing_token, s)) \<and>
   (truthy (body_tokenId b) \<and> \<not> truthy (body_provider b)
      \<longrightarrow> oAuthMobile env s b now = (missing_provider, s)) \<and>
   (\<not> truthy (body_code b') \<longrightarrow> oauthCallback env s b' now = (missing_code, s)) \<and>
   status missing_token = 400 \<and> status missing_provider = 400 \<and> status missing_code = 400"
  by (auto simp add: oAuthMobile_def verify_mobile_def oauthCallback_def verify_callback_def
      truthy_def missing_token_def missing_provider_def missing_code_def split: option.splits)

theorem missing_input_short_circuits_witness:
  "oAuthMobile example_env password_store \<lparr>body_tokenId = None, body_provider = Some ''google''\<rparr> 1
     = (missing_token, password_store) \<and>
   oAuthMobile example_env password_store \<lparr>body_tokenId = Some ''h.p999.s'', body_provider = Some ''''\<rparr> 1
     = (missing_provider, password_store) \<and>
   oauthCallback example_env password_store \<lparr>body_code = None\<rparr> 1 = (missing_code, password_store)"
  using missing_input_short_circuits [of "\<lparr>body_tokenId = None, body_provider = Some ''google''\<rparr>"
      example_env password_store 1 "\<lparr>body_code = None\<rparr>"]
    missing_input_short_circuits [of "\<lparr>body_tokenId = Some ''h.p999.s'', body_provider = Some ''''\<rparr>"
      example_env password_store 1 "\<lparr>body_code = None\<rparr>"]
  by (simp add: truthy_def)

text \<open>
  A provider other than Google (in any letter case) is refused with 400, and a token that
  does not have exactly three segments is refused with 401 "Token decode failed", both
  whatever Google would answer and with the store unchanged.
\<close>

theorem unsupported_provider_and_malformed_token:
  "(body_tokenId b = Some tokenId \<and> tokenId \<noteq> [] \<and> body_provider b = Some prov \<and>
    prov \<noteq> [] \<and> toLowerCase env prov \<noteq> ''google''
      \<longrightarrow> oAuthMobile env s b now = (unsupported_provider prov, s) \<and>
          status (unsupported_provider prov) = 400) \<and>
   (body_tokenId b = Some tokenId \<and> tokenId \<noteq> [] \<and> body_provider b = Some prov \<and>
    prov \<noteq> [] \<and> toLowerCase env prov = ''google'' \<and> length (split_dot tokenId) \<noteq> 3
      \<longrightarrow> oAuthMobile env s b now = (decode_failed, s) \<and> status decode_failed = 401)"
  by (auto simp add: oAuthMobile_def verify_mobile_def verify_google_def decode_unverified_def
      supportedProviders_def unsupported_provider_def decode_failed_def)

theorem unsupported_provider_and_malformed_token_witness:
  "oAuthMobile example_env password_store
     \<lparr>body_tokenId = Some ''h.p999.s'', body_provider = Some ''Facebook''\<rparr> 1
     = (unsupported_provider ''Facebook'', password_store) \<and>
   oAuthMobile example_env password_store
     \<lparr>body_tokenId = Some ''abc'', body_provider = Some ''google''\<rparr> 1
     = (decode_failed, password_store)"
  using unsupported_provider_and_malformed_token
      [of "\<lparr>body_tokenId = Some ''h.p999.s'', body_provider = Some ''Facebook''\<rparr>"
        "''h.p999.s''" "''Facebook''" example_env password_store 1]
    unsupported_provider_and_malformed_token
      [of "\<lparr>body_tokenId = Some ''abc'', body_provider = Some ''google''\<rparr>"
        "''abc''" "''google''" example_env password_store 1]
  by (simp add: js_defs example_fields)

text \<open>
  A verified payload without \<^verbatim>\<open>sub\<close> or without \<^verbatim>\<open>email\<close> is refused with 400 "Incomplete
  profile", and the store is unchanged.
\<close>

theorem incomplete_profile_rejected:
  assumes "body_tokenId b = Some tokenId" and "tokenId \<noteq> []"
    and "body_provider b = Some prov" and "prov \<noteq> []"
    and "toLowerCase env prov = ''google''"
    and "verifyIdToken env tokenId (allowedAudiences env (aud payload)) = Inr (Some payload)"
    and "\<not> truthy (sub payload) \<or> \<not> truthy (t_email payload)"
  shows "oAuthMobile env s b now
           = (\<lparr>status = 400,
               body = ErrorBody ''Incomplete profile''
                        ''Required user information missing from Google profile''\<rparr>, s)"
  using assms verifyIdToken_Inr(1,2) [OF assms(6)]
  by (simp add: oAuthMobile_def verify_mobile_def verify_google_def decode_unverified_def
      extract_profile_def supportedProviders_def)

theorem incomplete_profile_rejected_witness:
  "oAuthMobile no_email_env password_store
     \<lparr>body_tokenId = Some ''h.p999.s'', body_provider = Some ''google''\<rparr> 1
     = (\<lparr>status = 400,
         body = ErrorBody ''Incomplete profile''
                  ''Required user information missing from Google profile''\<rparr>, password_store)"
proof -
  have v: "verifyIdToken no_email_env ''h.p999.s''
             (allowedAudiences no_email_env (aud (payload_999\<lparr>t_email := None\<rparr>)))
           = Inr (Some (payload_999\<lparr>t_email := None\<rparr>))"
    by (simp add: verifyIdToken_def allowedAudiences_def no_email_env_def js_defs
        example_fields payload_defs)
  have t: "\<not> truthy (sub (payload_999\<lparr>t_email := None\<rparr>)) \<or>
           \<not> truthy (t_email (payload_999\<lparr>t_email := None\<rparr>))"
    by (simp add: truthy_def)
  have l: "toLowerCase no_email_env ''google'' = ''google''"
    by (simp add: no_email_env_def js_defs example_fields)
  show ?thesis
    using incomplete_profile_rejected [where env = no_email_env and tokenId = "''h.p999.s''"
        and prov = "''google''" and payload = "payload_999\<lparr>t_email := None\<rparr>"
        and b = "\<lparr>body_tokenId = Some ''h.p999.s'', body_provider = Some ''google''\<rparr>",
        OF _ _ _ _ l v t]
    by simp
qed

text \<open>
  The browser flow cannot create an account. Its new document is marked as a Google user
  and carries no provider, which the schema requires of a Google user: the create fails
  validation for every profile, so every browser login of a Google account that has no
  account yet is answered 500, with the store unchanged.
\<close>

theorem browser_flow_never_creates:
  assumes "verify_callback env b = Continue profile"
    and "User_findOne s (p_id profile) = None"
  shows "\<exists>ps. User_create env s (newUserData_callback env profile now) now
                 = Inl (ValidationError ps) \<and> ''provider'' \<in> set ps \<and>
              oauthCallback env s b now = (callback_catch (ValidationError ps), s) \<and>
              status (callback_catch (ValidationError ps)) = 500"
proof -
  let ?d = "(newUserData_callback env profile now)\<lparr>user_id := next_id s, createdAt := now, updatedAt := now\<rparr>"
  have "\<not> provider_valid ?d"
    by (simp add: provider_valid_def newUserData_callback_fields)
  then have p: "''provider'' \<in> set (validate_user env True ?d)"
    by (simp add: validate_user_def)
  then obtain q qs where q: "validate_user env True ?d = q # qs"
    by (cases "validate_user env True ?d") auto
  then have c: "User_create env s (newUserData_callback env profile now) now
                  = Inl (ValidationError (q # qs))"
    by (simp add: User_create_def Let_def)
  then have "oauthCallback env s b now = (callback_catch (ValidationError (q # qs)), s)"
    using assms by (simp add: oauthCallback_def oauthCallback_resume_def reconcile_callback_def)
  then show ?thesis
    using c p q by (auto simp add: callback_catch_def)
qed

theorem browser_flow_never_creates_witness:
  "oauthCallback example_env empty_store \<lparr>body_code = Some ''good-code''\<rparr> 1000
     = (callback_catch (ValidationError [''provider'']), empty_store) \<and>
   status (callback_catch (ValidationError [''provider''])) = 500"
proof -
  have f: "User_findOne empty_store (p_id profile_bob) = None"
    by (simp add: User_findOne_def store_defs)
  have c: "User_create example_env empty_store (newUserData_callback example_env profile_bob 1000) 1000
     = Inl (ValidationError [''provider''])"
    by (simp add: eval_defs schema_defs store_defs js_defs example_fields payload_defs)
  from browser_flow_never_creates [OF verify_callback_good(2) f, of 1000] show ?thesis
    by (auto simp add: c)
qed

text \<open>
  A token that fails the library's checks before the audience check is answered 401, with
  "Audience mismatch" when the library's message happens to contain the word "audience"
  (the message quotes the token) and with "Token verification failed" otherwise; the
  store is unchanged.
\<close>

theorem verification_failure_responses:
  assumes "body_tokenId b = Some tokenId" and "tokenId \<noteq> []"
    and "body_provider b = Some prov" and "prov \<noteq> []"
    and "toLowerCase env prov = ''google''"
    and "length (split_dot tokenId) = 3"
    and "json_of_base64 env (split_dot tokenId ! 1) = JsonObject payload"
    and "\<not> google_certs_ok env tokenId"
  shows "oAuthMobile env s b now =
           (if str_includes (google_verify_message env tokenId) ''audience''
            then \<lparr>status = 401,
                  body = AudienceMismatch ''Audience mismatch''
                           (''The token was issued for a different client ID. '' @
                            ''Please check your Google OAuth configuration.'')
                           (aud payload) (GOOGLE_CLIENT_ID env)\<rparr>
            else \<lparr>status = 401,
                  body = ErrorBody ''Token verification failed''
                           ''Invalid or expired Google ID token''\<rparr>, s)"
proof -
  from assms(6) obtain h p sg where s: "split_dot tokenId = [h, p, sg]"
    by (auto simp add: numeral_3_eq_3 length_Suc_conv)
  with assms(7) have p: "json_of_base64 env p = JsonObject payload" by simp
  have "verifyIdToken env tokenId (allowedAudiences env (aud payload))
          = Inl (google_verify_message env tokenId)"
    using s p assms(8) by (simp add: verifyIdToken_def)
  then show ?thesis
    using assms(1-7)
    by (simp add: oAuthMobile_def verify_mobile_def verify_google_def decode_unverified_def
        supportedProviders_def)
qed

theorem verification_failure_responses_witness:
  "oAuthMobile example_env password_store
     \<lparr>body_tokenId = Some ''h.p999.forged'', body_provider = Some ''google''\<rparr> 1
     = (\<lparr>status = 401,
         body = ErrorBody ''Token verification failed''
                  ''Invalid or expired Google ID token''\<rparr>, password_store) \<and>
   oAuthMobile example_env password_store
     \<lparr>body_tokenId = Some ''audience.p999.forged'', body_provider = Some ''google''\<rparr> 1
     = (\<lparr>status = 401,
         body = AudienceMismatch ''Audience mismatch''
                  (''The token was issued for a different client ID. '' @
                   ''Please check your Google OAuth configuration.'')
                  (Some ''client-999'') (Some ''client-123'')\<rparr>, password_store)"
proof -
  have l: "toLowerCase example_env ''google'' = ''google''"
    by (simp add: js_defs example_fields)
  have a: "length (split_dot ''h.p999.forged'') = 3"
    "json_of_base64 example_env (split_dot ''h.p999.forged'' ! 1) = JsonObject payload_999"
    "\<not> google_certs_ok example_env ''h.p999.forged''"
    "\<not> str_includes (google_verify_message example_env ''h.p999.forged'') ''audience''"
    by (simp_all add: js_defs example_fields)
  have b: "length (split_dot ''audience.p999.forged'') = 3"
    "json_of_base64 example_env (split_dot ''audience.p999.forged'' ! 1) = JsonObject payload_999"
    "\<not> google_certs_ok example_env ''audience.p999.forged''"
    "str_includes (google_verify_message example_env ''audience.p999.forged'') ''audience''"
    by (simp_all add: js_defs example_fields)
  show ?thesis
    using verification_failure_responses [where env = example_env and s = password_store
        and now = 1 and tokenId = "''h.p999.forged''" and prov = "''google''"
        and payload = payload_999
        and b = "\<lparr>body_tokenId = Some ''h.p999.forged'', body_provider = Some ''google''\<rparr>",
        OF _ _ _ _ l a(1-3)]
      verification_failure_responses [where env = example_env and s = password_store
        and now = 1 and tokenId = "''audience.p999.forged''" and prov = "''google''"
        and payload = payload_999
        and b = "\<lparr>body_tokenId = Some ''audience.p999.forged'',
                   body_provider = Some ''google''\<rparr>",
        OF _ _ _ _ l b(1-3)]
      a(4) b(4)
    by (simp add: example_fields payload_defs)
qed

end
